theory Spec2Isabelle
  imports Complex_Main
begin

section \<open>Carpool Connect: booking, listing, routing, validation and health checks\<close>

text \<open>
  A shallow embedding of the parts of the application that the specification talks about:
  \<^item> \<^verbatim>\<open>utils/api.js\<close>: \<^verbatim>\<open>validateApiKey\<close>, \<^verbatim>\<open>getSimpleRoute\<close>, \<^verbatim>\<open>getRoute\<close>,
    \<^verbatim>\<open>checkApiHealth\<close>;
  \<^item> the API router: \<^verbatim>\<open>POST /api/route\<close>, \<^verbatim>\<open>GET /api/health\<close>;
  \<^item> \<^verbatim>\<open>utils/helpers.js\<close>: \<^verbatim>\<open>validateTripData\<close>;
  \<^item> \<^verbatim>\<open>routes/index.js\<close>: \<^verbatim>\<open>parsePaginationParams\<close>, \<^verbatim>\<open>buildTripFilters\<close>,
    \<^verbatim>\<open>fetchTrips\<close>, \<^verbatim>\<open>GET /trips\<close>, \<^verbatim>\<open>POST /trips/create\<close>, \<^verbatim>\<open>POST /trips/:id/book\<close>.

  Conventions. A JavaScript value that may be \<^verbatim>\<open>undefined\<close> or \<^verbatim>\<open>null\<close> is an
  \<open>option\<close>. Strings are lists of characters. Every call that leaves the process (a query
  against the relational store, an HTTP request to the routing provider) takes its outcome
  from an explicit environment argument, so that each error branch of the source is a branch
  of the model. JavaScript numbers are modelled by exact numbers (\<open>int\<close>, \<open>rat\<close>, \<open>real\<close>),
  with \<^verbatim>\<open>NaN\<close> as \<open>None\<close>; the rounding of IEEE doubles is not modelled.
\<close>

subsection \<open>API key format check (\<^verbatim>\<open>validateApiKey\<close>)\<close>

text \<open>The character class \<^verbatim>\<open>[a-zA-Z0-9_-]\<close> of the regular expression.\<close>

definition key_char :: "char \<Rightarrow> bool" where
  "key_char c \<longleftrightarrow>
     c \<in> set (''abcdefghijklmnopqrstuvwxyz'' @ ''ABCDEFGHIJKLMNOPQRSTUVWXYZ'' @ ''0123456789'' @ ''_-'')"

text \<open>\<^verbatim>\<open>/^[a-zA-Z0-9_-]+$/.test(s)\<close>: one or more characters, all of the class.\<close>

definition key_regex_test :: "string \<Rightarrow> bool" where
  "key_regex_test s \<longleftrightarrow> s \<noteq> [] \<and> list_all key_char s"

text \<open>
  \<^verbatim>\<open>validateApiKey(apiKey, service)\<close>. The key is \<open>None\<close> when it is \<^verbatim>\<open>undefined\<close> or
  \<^verbatim>\<open>null\<close>; the empty string is falsy as well.
\<close>

definition validateApiKey :: "string option \<Rightarrow> string \<Rightarrow> bool" where
  "validateApiKey apiKey service =
     (case apiKey of
        None \<Rightarrow> False
      | Some k \<Rightarrow>
          if k = [] then False
          else if service = ''openrouteservice'' then length k \<ge> 50 \<and> key_regex_test k
          else length k > 0)"

text \<open>The guard \<^verbatim>\<open>apiKey && validateApiKey(apiKey, 'openrouteservice')\<close> used by callers.\<close>

definition key_usable :: "string option \<Rightarrow> bool" where
  "key_usable apiKey \<longleftrightarrow>
     (case apiKey of None \<Rightarrow> False | Some k \<Rightarrow> k \<noteq> [] \<and> validateApiKey apiKey ''openrouteservice'')"

subsection \<open>Health check (\<^verbatim>\<open>checkApiHealth\<close> and \<^verbatim>\<open>GET /api/health\<close>)\<close>

datatype svc_status = unknown | healthy | unhealthy | not_configured

record service_health =
  status :: svc_status
  error :: "string option"
  responseTime :: "int option"

text \<open>The object built by \<^verbatim>\<open>checkApiHealth\<close>: two service entries and a timestamp string.\<close>

record api_health =
  supabase :: service_health
  openrouteservice :: service_health
  timestamp :: string

text \<open>
  What the probes meet: whether the store query or the provider request throws (with the
  message), how long each took, the configured provider key and the clock.
\<close>

record health_env =
  supabase_throws :: "string option"
  supabase_ms :: int
  ors_api_key :: "string option"
  ors_fetch_throws :: "string option"
  ors_ms :: int
  clock_iso :: string

definition checkApiHealth :: "health_env \<Rightarrow> api_health" where
  "checkApiHealth env =
     \<lparr> supabase =
         (case supabase_throws env of
            None \<Rightarrow> \<lparr> status = healthy, error = None, responseTime = Some (supabase_ms env) \<rparr>
          | Some m \<Rightarrow> \<lparr> status = unhealthy, error = Some m, responseTime = None \<rparr>),
       openrouteservice =
         (if key_usable (ors_api_key env) then
            (case ors_fetch_throws env of
               None \<Rightarrow> \<lparr> status = healthy, error = None, responseTime = Some (ors_ms env) \<rparr>
             | Some m \<Rightarrow> \<lparr> status = unhealthy, error = Some m, responseTime = None \<rparr>)
          else \<lparr> status = not_configured, error = None, responseTime = None \<rparr>),
       timestamp = clock_iso env \<rparr>"

text \<open>
  \<^verbatim>\<open>Object.values(health)\<close> lists the values of all three properties in insertion order:
  the two service objects and the timestamp string.
\<close>

datatype health_value = ServiceVal service_health | StringVal string

definition object_values :: "api_health \<Rightarrow> health_value list" where
  "object_values h = [ServiceVal (supabase h), ServiceVal (openrouteservice h), StringVal (timestamp h)]"

text \<open>\<^verbatim>\<open>service.status\<close>: the field of a service object, \<^verbatim>\<open>undefined\<close> on a string.\<close>

fun status_prop :: "health_value \<Rightarrow> svc_status option" where
  "status_prop (ServiceVal s) = Some (status s)"
| "status_prop (StringVal _) = None"

definition service_ok :: "health_value \<Rightarrow> bool" where
  "service_ok v \<longleftrightarrow> status_prop v = Some healthy \<or> status_prop v = Some not_configured"

record health_response =
  http_code :: nat
  overall :: string
  services :: api_health

text \<open>
  The handler of \<^verbatim>\<open>GET /api/health\<close>. \<^verbatim>\<open>checkApiHealth\<close> catches the failures of both
  probes itself, so the handler's own \<^verbatim>\<open>catch\<close> branch (code 500) is not reached.
\<close>

definition get_api_health :: "health_env \<Rightarrow> health_response" where
  "get_api_health env =
     (let health = checkApiHealth env;
          allHealthy = list_all service_ok (object_values health)
      in \<lparr> http_code = (if allHealthy then 200 else 503),
           overall = (if allHealthy then ''healthy'' else ''degraded''),
           services = health \<rparr>)"

text \<open>
  The reading of the specification: the overall status looks at the checked services only.
\<close>

definition services_all_ok :: "api_health \<Rightarrow> bool" where
  "services_all_ok h \<longleftrightarrow>
     status (supabase h) \<in> {healthy, not_configured} \<and>
     status (openrouteservice h) \<in> {healthy, not_configured}"

subsection \<open>Fallback routing (\<^verbatim>\<open>getSimpleRoute\<close>)\<close>

record coords =
  lat :: real
  lng :: real

text \<open>\<^verbatim>\<open>API_CONFIG.EARTH_RADIUS\<close> (kilometres) and \<^verbatim>\<open>API_CONFIG.SPEEDS.AVG_KMH\<close>.\<close>

definition EARTH_RADIUS :: real where
  "EARTH_RADIUS = 6371"

definition AVG_KMH :: real where
  "AVG_KMH = 50"

text \<open>\<^verbatim>\<open>Math.sqrt\<close>: \<^verbatim>\<open>NaN\<close> on a negative argument.\<close>

definition js_sqrt :: "real \<Rightarrow> real option" where
  "js_sqrt x = (if x < 0 then None else Some (sqrt x))"

text \<open>
  \<^verbatim>\<open>Math.atan2(y, x)\<close>: the angle of the point \<open>(x, y)\<close>, in \<open>(-\<pi>, \<pi>]\<close> (the two signed
  zeros of a double are not told apart).
\<close>

definition js_atan2 :: "real \<Rightarrow> real \<Rightarrow> real" where
  "js_atan2 y x =
     (if 0 < x then arctan (y / x)
      else if x < 0 then (if 0 \<le> y then arctan (y / x) + pi else arctan (y / x) - pi)
      else if 0 < y then pi / 2
      else if y < 0 then - (pi / 2)
      else 0)"

record geometry =
  gtype :: string
  coordinates :: "(real \<times> real) list"

text \<open>
  A route as returned to the caller. \<open>distance\<close> (metres) and \<open>duration\<close> (seconds) are
  \<open>None\<close> when the computation yields \<^verbatim>\<open>NaN\<close>. Coordinate pairs are \<open>(lng, lat)\<close>.
\<close>

record route =
  distance :: "real option"
  duration :: "real option"
  route_geometry :: geometry
  bbox :: "real list"

definition getSimpleRoute :: "coords \<Rightarrow> coords \<Rightarrow> route" where
  "getSimpleRoute origin destination =
     (let dLat = ((lat destination - lat origin) * pi) / 180;
          dLon = ((lng destination - lng origin) * pi) / 180;
          a = sin (dLat / 2) * sin (dLat / 2) +
              cos ((lat origin * pi) / 180) * sin (dLon / 2) * sin (dLon / 2);
          c = (case (js_sqrt a, js_sqrt (1 - a)) of
                 (Some y, Some x) \<Rightarrow> Some (2 * js_atan2 y x)
               | _ \<Rightarrow> None);
          km = map_option (\<lambda>c. EARTH_RADIUS * c) c;
          secs = map_option (\<lambda>d. (d / AVG_KMH) * 3600) km
      in \<lparr> distance = map_option (\<lambda>d. d * 1000) km,
           duration = secs,
           route_geometry =
             \<lparr> gtype = ''LineString'',
               coordinates = [(lng origin, lat origin), (lng destination, lat destination)] \<rparr>,
           bbox = [min (lng origin) (lng destination), min (lat origin) (lat destination),
                   max (lng origin) (lng destination), max (lat origin) (lat destination)] \<rparr>)"

text \<open>
  The reference the specification names: the standard haversine great-circle distance
  \<open>2 R arcsin (sqrt h)\<close> with
  \<open>h = sin\<^sup>2 (\<Delta>lat / 2) + cos lat\<^sub>1 cos lat\<^sub>2 sin\<^sup>2 (\<Delta>lng / 2)\<close>, radius 6371 km, in metres,
  and the duration at 50 km/h, in seconds.
\<close>

definition haversine_reference_m :: "coords \<Rightarrow> coords \<Rightarrow> real" where
  "haversine_reference_m p q =
     (let phi1 = lat p * pi / 180; phi2 = lat q * pi / 180;
          dphi = (lat q - lat p) * pi / 180; dlam = (lng q - lng p) * pi / 180;
          h = (sin (dphi / 2))\<^sup>2 + cos phi1 * cos phi2 * (sin (dlam / 2))\<^sup>2
      in 2 * 6371 * arcsin (sqrt h) * 1000)"

definition reference_duration_s :: "coords \<Rightarrow> coords \<Rightarrow> real" where
  "reference_duration_s p q = haversine_reference_m p q / 1000 / 50 * 3600"

subsection \<open>Routing with provider and fallback (\<^verbatim>\<open>getRoute\<close>, \<^verbatim>\<open>POST /api/route\<close>)\<close>

text \<open>
  The outcome of \<^verbatim>\<open>getOpenRouteServiceRoute(origin, destination, apiKey)\<close>: the provider's
  route, or the message of the error it throws (timeout, HTTP error, no route found,
  malformed answer).
\<close>

type_synonym provider = "coords \<Rightarrow> coords \<Rightarrow> string \<Rightarrow> string + route"

text \<open>
  \<^verbatim>\<open>getRoute\<close>. The result is \<open>Inr\<close> when the function returns and \<open>Inl\<close> when it throws.
  The outer \<^verbatim>\<open>catch\<close> rethrows what \<^verbatim>\<open>getSimpleRoute\<close> throws; on coordinate objects
  \<^verbatim>\<open>getSimpleRoute\<close> does not throw.
\<close>

definition getRoute :: "provider \<Rightarrow> coords \<Rightarrow> coords \<Rightarrow> string option \<Rightarrow> string + route" where
  "getRoute ors origin destination apiKey =
     (case apiKey of
        Some k \<Rightarrow>
          if key_usable apiKey then
            (case ors origin destination k of
               Inr r \<Rightarrow> Inr r
             | Inl orsError \<Rightarrow> Inr (getSimpleRoute origin destination))
          else Inr (getSimpleRoute origin destination)
      | None \<Rightarrow> Inr (getSimpleRoute origin destination))"

text \<open>
  The JSON body of \<^verbatim>\<open>POST /api/route\<close>: either point may be missing, and so may either
  number of a point. \<^verbatim>\<open>!origin.lat\<close> is true for a missing number and for \<open>0\<close>.
\<close>

record jcoords =
  jlat :: "real option"
  jlng :: "real option"

record route_body =
  body_origin :: "jcoords option"
  body_destination :: "jcoords option"

datatype route_response = RouteJson route | RouteError nat string

definition post_route :: "provider \<Rightarrow> route_body \<Rightarrow> route_response" where
  "post_route ors body =
     (case body_origin body of
        None \<Rightarrow> RouteError 400 ''Valid origin and destination coordinates are required''
      | Some orig \<Rightarrow>
          (case body_destination body of
             None \<Rightarrow> RouteError 400 ''Valid origin and destination coordinates are required''
           | Some dest \<Rightarrow>
               (case (jlat orig, jlng orig, jlat dest, jlng dest) of
                  (Some olat, Some olng, Some dlat, Some dlng) \<Rightarrow>
                    if olat = 0 \<or> olng = 0 \<or> dlat = 0 \<or> dlng = 0
                    then RouteError 400 ''Valid origin and destination coordinates are required''
                    else
                      (case getRoute ors \<lparr> lat = olat, lng = olng \<rparr>
                              \<lparr> lat = dlat, lng = dlng \<rparr> None of
                         Inr result \<Rightarrow> RouteJson result
                       | Inl e \<Rightarrow>
                           RouteError 500
                             ''Routing service temporarily unavailable. Please try again.'')
                | _ \<Rightarrow> RouteError 400 ''Valid origin and destination coordinates are required'')))"

subsection \<open>The relational store\<close>

text \<open>
  The three relations the handlers use, with the columns the modelled handlers depend on
  (a trip's description, route geometry and audit timestamps are left out). Identifiers
  are UUID strings; timestamps are milliseconds since the epoch; a price is an exact
  decimal, \<open>None\<close> for SQL \<^verbatim>\<open>NULL\<close>.
\<close>

type_synonym uuid = string

record profile =
  profile_id :: uuid
  full_name :: string
  phone :: string
  bio :: string
  avatar_url :: "string option"

record trip =
  trip_id :: uuid
  driver_id :: uuid
  origin_text :: string
  destination_text :: string
  departure_timestamp :: int
  available_seats :: int
  price :: "rat option"

record booking =
  booking_id :: uuid
  booking_trip_id :: uuid
  passenger_id :: uuid
  booked_at :: int

record store =
  profiles :: "profile list"
  trips :: "trip list"
  bookings :: "booking list"

text \<open>
  \<^verbatim>\<open>.single()\<close>: the row when the query selects exactly one, otherwise no data (and the
  error \<^verbatim>\<open>PGRST116\<close>).
\<close>

definition select_single :: "('a \<Rightarrow> bool) \<Rightarrow> 'a list \<Rightarrow> 'a option" where
  "select_single P rows = (case filter P rows of [r] \<Rightarrow> Some r | _ \<Rightarrow> None)"

text \<open>Insert into \<^verbatim>\<open>profiles\<close>: the primary key \<^verbatim>\<open>id\<close> must be new.\<close>

definition db_insert_profile :: "profile \<Rightarrow> store \<Rightarrow> string + store" where
  "db_insert_profile p s =
     (if profile_id p \<in> set (map profile_id (profiles s))
      then Inl ''duplicate key value violates unique constraint profiles_pkey''
      else Inr (s\<lparr> profiles := profiles s @ [p] \<rparr>))"

text \<open>
  Insert into \<^verbatim>\<open>bookings\<close>, with the constraints both schema files of the repository
  declare: the primary key, the foreign keys to \<^verbatim>\<open>trips\<close> and \<^verbatim>\<open>profiles\<close>, and
  \<^verbatim>\<open>UNIQUE (trip_id, passenger_id)\<close>. The store checks them in the same atomic
  statement that adds the row.
\<close>

definition db_insert_booking :: "booking \<Rightarrow> store \<Rightarrow> string + store" where
  "db_insert_booking b s =
     (if booking_id b \<in> set (map booking_id (bookings s))
      then Inl ''duplicate key value violates unique constraint bookings_pkey''
      else if booking_trip_id b \<notin> set (map trip_id (trips s))
      then Inl ''insert or update on table bookings violates foreign key constraint (trip_id)''
      else if passenger_id b \<notin> set (map profile_id (profiles s))
      then Inl ''insert or update on table bookings violates foreign key constraint (passenger_id)''
      else if (booking_trip_id b, passenger_id b)
                \<in> set (map (\<lambda>x. (booking_trip_id x, passenger_id x)) (bookings s))
      then Inl ''duplicate key value violates unique constraint no_duplicate_booking''
      else Inr (s\<lparr> bookings := bookings s @ [b] \<rparr>))"

text \<open>\<^verbatim>\<open>update({available_seats: n}).eq('id', tripId)\<close> on \<^verbatim>\<open>trips\<close>.\<close>

definition db_update_seats :: "uuid \<Rightarrow> int \<Rightarrow> store \<Rightarrow> store" where
  "db_update_seats tripId n s =
     s\<lparr> trips := map (\<lambda>t. if trip_id t = tripId then t\<lparr> available_seats := n \<rparr> else t) (trips s) \<rparr>"

subsection \<open>Booking a seat (\<^verbatim>\<open>POST /trips/:id/book\<close>)\<close>

text \<open>The authenticated caller (\<^verbatim>\<open>req.user\<close>) with the metadata the handler reads.\<close>

record auth_user =
  user_id :: uuid
  meta_full_name :: "string option"
  meta_phone :: "string option"
  meta_bio :: "string option"
  meta_avatar_url :: "string option"

text \<open>
  What one request meets outside the process. Each \<open>_error\<close> field is the error a query
  returns for reasons other than the constraints modelled above (network, timeout, row
  level security, a check constraint of the deployed schema); \<open>None\<close> means the store
  executes the query. \<open>booking_insert_no_data\<close>: the insert is executed but the returned
  row list is empty. \<open>new_booking_id\<close> is the id the store generates, \<open>now\<close> the clock.
\<close>

record booking_env =
  profile_check_error :: "string option"
  profile_create_error :: "string option"
  trip_select_error :: "string option"
  booking_check_error :: "string option"
  booking_insert_error :: "string option"
  booking_insert_no_data :: bool
  seat_update_error :: "string option"
  driver_fetch_error :: "string option"
  new_booking_id :: uuid
  now :: int

text \<open>The error codes of the redirect \<^verbatim>\<open>/trips/:id?error=...\<close>.\<close>

datatype book_error =
  profile_failed | trip_not_found | driver_booking | no_seats | already_booked | booking_failed

text \<open>The data handed to the confirmation template \<^verbatim>\<open>trips/booking\<close>.\<close>

record confirmation =
  conf_user :: uuid
  conf_trip :: trip
  conf_driver_name :: string
  conf_bookingId :: uuid

datatype book_response =
    RedirectLogin
  | RedirectError uuid book_error "string option"
  | RenderBooking confirmation

text \<open>The console lines of the handler, in the order of the source (\<open>Err\<close>: \<^verbatim>\<open>console.error\<close>).\<close>

datatype log_entry =
    LogBookingRequest uuid uuid
  | LogCheckingProfile
  | ErrCheckingProfile string
  | LogProfileNotFound
  | ErrCreatingProfile string
  | LogProfileCreated
  | LogProfileExists
  | ErrTripNotFound
  | LogTripFound trip
  | LogUserIsDriver
  | LogNoSeats
  | LogCheckingExisting
  | ErrCheckingExisting string
  | LogAlreadyBooked
  | LogValidationsPassed
  | LogCreatingBooking
  | ErrBookingCreation string
  | ErrNoBookingData
  | LogBookingCreated uuid
  | LogDecrementingSeats
  | ErrUpdatingSeats string
  | LogSeatsDecremented
  | ErrFetchingDriver string
  | LogRenderingConfirmation

text \<open>\<^verbatim>\<open>x || d\<close> on an optional string: the default for a missing or empty one.\<close>

definition or_default :: "string option \<Rightarrow> string \<Rightarrow> string" where
  "or_default v d = (case v of None \<Rightarrow> d | Some x \<Rightarrow> if x = [] then d else x)"

text \<open>
  STEP 1: look the caller's profile up and create it when the lookup returns no row. The
  result is the error that ends the request, or the store after the step.
\<close>

definition ensure_profile :: "booking_env \<Rightarrow> auth_user \<Rightarrow> store \<Rightarrow> (string + store) \<times> log_entry list" where
  "ensure_profile env u s =
     (let existingProfile =
            (case profile_check_error env of
               None \<Rightarrow> select_single (\<lambda>p. profile_id p = user_id u) (profiles s)
             | Some m \<Rightarrow> None);
          log1 = LogCheckingProfile #
            (case profile_check_error env of None \<Rightarrow> [] | Some m \<Rightarrow> [ErrCheckingProfile m])
      in case existingProfile of
           Some p \<Rightarrow> (Inr s, log1 @ [LogProfileExists])
         | None \<Rightarrow>
             (case (case profile_create_error env of
                      Some m \<Rightarrow> Inl m
                    | None \<Rightarrow>
                        db_insert_profile
                          \<lparr> profile_id = user_id u,
                            full_name = or_default (meta_full_name u) ''User'',
                            phone = or_default (meta_phone u) [],
                            bio = or_default (meta_bio u) [],
                            avatar_url =
                              (case meta_avatar_url u of
                                 None \<Rightarrow> None
                               | Some a \<Rightarrow> if a = [] then None else Some a) \<rparr> s) of
                Inl m \<Rightarrow> (Inl m, log1 @ [LogProfileNotFound, ErrCreatingProfile m])
              | Inr s' \<Rightarrow> (Inr s', log1 @ [LogProfileNotFound, LogProfileCreated])))"

text \<open>STEP 2: load the trip.\<close>

definition load_trip :: "booking_env \<Rightarrow> uuid \<Rightarrow> store \<Rightarrow> trip option" where
  "load_trip env tripId s =
     (case trip_select_error env of
        None \<Rightarrow> select_single (\<lambda>t. trip_id t = tripId) (trips s)
      | Some m \<Rightarrow> None)"

text \<open>
  The query for an existing booking of the pair: the matching rows, or no data and an
  error.
\<close>

definition find_existing_booking :: "booking_env \<Rightarrow> uuid \<Rightarrow> uuid \<Rightarrow> store \<Rightarrow> booking list option" where
  "find_existing_booking env tripId userId s =
     (case booking_check_error env of
        None \<Rightarrow> Some (filter (\<lambda>b. booking_trip_id b = tripId \<and> passenger_id b = userId) (bookings s))
      | Some m \<Rightarrow> None)"

text \<open>STEP 4: insert the booking row.\<close>

definition create_booking :: "booking_env \<Rightarrow> uuid \<Rightarrow> uuid \<Rightarrow> store \<Rightarrow> string + store" where
  "create_booking env tripId userId s =
     (case booking_insert_error env of
        Some m \<Rightarrow> Inl m
      | None \<Rightarrow>
          db_insert_booking
            \<lparr> booking_id = new_booking_id env, booking_trip_id = tripId,
              passenger_id = userId, booked_at = now env \<rparr> s)"

text \<open>
  STEPS 5 to 7, after the booking row exists: write the decremented seat count (computed
  from the trip as loaded in STEP 2), fetch the driver's profile, render the confirmation.
  A failed seat update is logged and the handler continues.
\<close>

definition confirm_booking :: "booking_env \<Rightarrow> auth_user \<Rightarrow> uuid \<Rightarrow> trip \<Rightarrow> store \<Rightarrow>
    book_response \<times> log_entry list \<times> store" where
  "confirm_booking env u tripId t s =
     (let (s', log5) =
            (case seat_update_error env of
               Some m \<Rightarrow> (s, [LogDecrementingSeats, ErrUpdatingSeats m])
             | None \<Rightarrow> (db_update_seats tripId (available_seats t - 1) s,
                         [LogDecrementingSeats, LogSeatsDecremented]));
          driver =
            (case driver_fetch_error env of
               None \<Rightarrow> select_single (\<lambda>p. profile_id p = driver_id t) (profiles s')
             | Some m \<Rightarrow> None);
          log6 =
            (case driver_fetch_error env of
               Some m \<Rightarrow> [ErrFetchingDriver m]
             | None \<Rightarrow> (case driver of None \<Rightarrow> [ErrFetchingDriver ''PGRST116''] | Some d \<Rightarrow> []))
      in (RenderBooking
            \<lparr> conf_user = user_id u, conf_trip = t,
              conf_driver_name = (case driver of None \<Rightarrow> ''Driver'' | Some d \<Rightarrow> full_name d),
              conf_bookingId = new_booking_id env \<rparr>,
          log5 @ log6 @ [LogRenderingConfirmation], s'))"

text \<open>
  STEPS 3 and 4 for a loaded trip: the eligibility checks in the order of the source
  (driver, seats, existing booking), then the insert.
\<close>

definition book_loaded_trip :: "booking_env \<Rightarrow> auth_user \<Rightarrow> uuid \<Rightarrow> trip \<Rightarrow> store \<Rightarrow>
    book_response \<times> log_entry list \<times> store" where
  "book_loaded_trip env u tripId t s =
     (if user_id u = driver_id t then
        (RedirectError tripId driver_booking None, [LogUserIsDriver], s)
      else if available_seats t \<le> 0 then
        (RedirectError tripId no_seats None, [LogNoSeats], s)
      else
        (let existingBooking = find_existing_booking env tripId (user_id u) s;
             log3 = LogCheckingExisting #
               (case booking_check_error env of None \<Rightarrow> [] | Some m \<Rightarrow> [ErrCheckingExisting m])
         in if (case existingBooking of None \<Rightarrow> False | Some rows \<Rightarrow> length rows > 0) then
              (RedirectError tripId already_booked None, log3 @ [LogAlreadyBooked], s)
            else
              (case create_booking env tripId (user_id u) s of
                 Inl m \<Rightarrow>
                   (RedirectError tripId booking_failed (Some m),
                    log3 @ [LogValidationsPassed, LogCreatingBooking, ErrBookingCreation m], s)
               | Inr s4 \<Rightarrow>
                   if booking_insert_no_data env then
                     (RedirectError tripId booking_failed (Some ''No+booking+data+returned''),
                      log3 @ [LogValidationsPassed, LogCreatingBooking, ErrNoBookingData], s4)
                   else
                     (case confirm_booking env u tripId t s4 of
                        (resp, log5, s') \<Rightarrow>
                          (resp,
                           log3 @ [LogValidationsPassed, LogCreatingBooking,
                                   LogBookingCreated (new_booking_id env)] @ log5,
                           s')))))"

text \<open>
  The handler. The result is the response, the console lines and the store after the
  request. The queries return their errors as values, so the handler's outer
  \<^verbatim>\<open>catch\<close> is not modelled.
\<close>

definition book_trip :: "booking_env \<Rightarrow> auth_user option \<Rightarrow> uuid \<Rightarrow> store \<Rightarrow>
    book_response \<times> log_entry list \<times> store" where
  "book_trip env user tripId s =
     (case user of
        None \<Rightarrow> (RedirectLogin, [], s)
      | Some u \<Rightarrow>
          (case ensure_profile env u s of
             (Inl m, log1) \<Rightarrow>
               (RedirectError tripId profile_failed (Some m),
                LogBookingRequest tripId (user_id u) # log1, s)
           | (Inr s1, log1) \<Rightarrow>
               (case load_trip env tripId s1 of
                  None \<Rightarrow>
                    (RedirectError tripId trip_not_found None,
                     LogBookingRequest tripId (user_id u) # log1 @ [ErrTripNotFound], s1)
                | Some t \<Rightarrow>
                    (case book_loaded_trip env u tripId t s1 of
                       (resp, log3, s') \<Rightarrow>
                         (resp,
                          LogBookingRequest tripId (user_id u) # log1 @ [LogTripFound t] @ log3,
                          s')))))"

text \<open>At most one booking row for every pair of trip and passenger.\<close>

definition unique_bookings :: "store \<Rightarrow> bool" where
  "unique_bookings s \<longleftrightarrow> distinct (map (\<lambda>b. (booking_trip_id b, passenger_id b)) (bookings s))"

definition has_booking :: "store \<Rightarrow> uuid \<Rightarrow> uuid \<Rightarrow> bool" where
  "has_booking s tripId userId \<longleftrightarrow>
     (tripId, userId) \<in> set (map (\<lambda>b. (booking_trip_id b, passenger_id b)) (bookings s))"

text \<open>The booking id on the confirmation page, when the response is the confirmation.\<close>

definition confirmed_id :: "book_response \<Rightarrow> uuid option" where
  "confirmed_id resp = (case resp of RenderBooking c \<Rightarrow> Some (conf_bookingId c) | _ \<Rightarrow> None)"

text \<open>
  The queries of STEPS 1 and 2 are executed, the profile ids in the store are unique (the
  primary key), and the trip query selects the trip \<open>t\<close>.
\<close>

definition trip_loadable :: "booking_env \<Rightarrow> store \<Rightarrow> uuid \<Rightarrow> trip \<Rightarrow> bool" where
  "trip_loadable env s tripId t \<longleftrightarrow>
     profile_check_error env = None \<and> profile_create_error env = None \<and>
     trip_select_error env = None \<and> distinct (map profile_id (profiles s)) \<and>
     select_single (\<lambda>x. trip_id x = tripId) (trips s) = Some t"

subsection \<open>Example data for the booking workflow\<close>

text \<open>
  A store with a driver (Alice), two passengers (Bob, Carol), a full trip \<open>t1\<close> and an open
  trip \<open>t2\<close>, both driven by Alice; Bob holds a booking on each.
\<close>

definition alice :: auth_user where
  "alice = \<lparr> user_id = ''alice'', meta_full_name = Some ''Alice'', meta_phone = None,
             meta_bio = None, meta_avatar_url = None \<rparr>"

definition bob :: auth_user where
  "bob = \<lparr> user_id = ''bob'', meta_full_name = Some ''Bob'', meta_phone = None,
           meta_bio = None, meta_avatar_url = None \<rparr>"

definition carol :: auth_user where
  "carol = \<lparr> user_id = ''carol'', meta_full_name = Some ''Carol'', meta_phone = None,
             meta_bio = None, meta_avatar_url = None \<rparr>"

definition profile_of :: "auth_user \<Rightarrow> profile" where
  "profile_of u = \<lparr> profile_id = user_id u, full_name = or_default (meta_full_name u) ''User'',
                    phone = [], bio = [], avatar_url = None \<rparr>"

definition trip_full :: trip where
  "trip_full = \<lparr> trip_id = ''t1'', driver_id = ''alice'', origin_text = ''Pune'',
                 destination_text = ''Mumbai'', departure_timestamp = 5000,
                 available_seats = 0, price = None \<rparr>"

definition trip_open :: trip where
  "trip_open = \<lparr> trip_id = ''t2'', driver_id = ''alice'', origin_text = ''Pune'',
                 destination_text = ''Nashik'', departure_timestamp = 6000,
                 available_seats = 2, price = None \<rparr>"

definition example_store :: store where
  "example_store =
     \<lparr> profiles = [profile_of alice, profile_of bob, profile_of carol],
       trips = [trip_full, trip_open],
       bookings =
         [\<lparr> booking_id = ''b1'', booking_trip_id = ''t1'', passenger_id = ''bob'', booked_at = 10 \<rparr>,
          \<lparr> booking_id = ''b2'', booking_trip_id = ''t2'', passenger_id = ''bob'', booked_at = 20 \<rparr>] \<rparr>"

text \<open>An environment in which every query is executed, and one in which the seat update fails.\<close>

definition no_faults :: booking_env where
  "no_faults =
     \<lparr> profile_check_error = None, profile_create_error = None, trip_select_error = None,
       booking_check_error = None, booking_insert_error = None, booking_insert_no_data = False,
       seat_update_error = None, driver_fetch_error = None, new_booking_id = ''b3'', now = 1000 \<rparr>"

definition seat_update_fails :: booking_env where
  "seat_update_fails = no_faults\<lparr> seat_update_error := Some ''violates check constraint valid_seats'' \<rparr>"

subsection \<open>JavaScript string primitives\<close>

text \<open>
  White space as \<^verbatim>\<open>parseInt\<close> and \<^verbatim>\<open>String.prototype.trim\<close> skip it, for the ASCII
  range: tab, line feed, vertical tab, form feed, carriage return, space.
\<close>

definition js_whitespace :: "char \<Rightarrow> bool" where
  "js_whitespace c \<longleftrightarrow> c \<in> set [CHR 0x09, CHR 0x0A, CHR 0x0B, CHR 0x0C, CHR 0x0D, CHR '' '']"

definition js_trim :: "string \<Rightarrow> string" where
  "js_trim s = rev (dropWhile js_whitespace (rev (dropWhile js_whitespace s)))"

text \<open>The value of a digit in radixes up to 16.\<close>

definition digit_val :: "char \<Rightarrow> nat option" where
  "digit_val c =
     map_of
       [(CHR ''0'', 0), (CHR ''1'', 1), (CHR ''2'', 2), (CHR ''3'', 3), (CHR ''4'', 4),
        (CHR ''5'', 5), (CHR ''6'', 6), (CHR ''7'', 7), (CHR ''8'', 8), (CHR ''9'', 9),
        (CHR ''a'', 10), (CHR ''b'', 11), (CHR ''c'', 12), (CHR ''d'', 13), (CHR ''e'', 14),
        (CHR ''f'', 15), (CHR ''A'', 10), (CHR ''B'', 11), (CHR ''C'', 12), (CHR ''D'', 13),
        (CHR ''E'', 14), (CHR ''F'', 15)] c"

definition is_digit :: "nat \<Rightarrow> char \<Rightarrow> bool" where
  "is_digit radix c \<longleftrightarrow> (case digit_val c of None \<Rightarrow> False | Some v \<Rightarrow> v < radix)"

definition digits_value :: "nat \<Rightarrow> string \<Rightarrow> nat" where
  "digits_value radix z =
     foldl (\<lambda>acc c. acc * radix + (case digit_val c of None \<Rightarrow> 0 | Some v \<Rightarrow> v)) 0 z"

text \<open>
  \<^verbatim>\<open>parseInt(s)\<close> without a radix: leading white space, an optional sign, an optional
  \<^verbatim>\<open>0x\<close> prefix, then the longest run of digits; \<open>None\<close> is \<^verbatim>\<open>NaN\<close>. Whatever follows
  the digits is ignored. The result is exact (no rounding above \<open>2\<^sup>5\<^sup>3\<close>).
\<close>

definition parseInt :: "string \<Rightarrow> int option" where
  "parseInt str =
     (let s = dropWhile js_whitespace str;
          (sign, s1) =
            (case s of
               [] \<Rightarrow> (1, [])
             | c # r \<Rightarrow> if c = CHR ''-'' then (- 1, r) else if c = CHR ''+'' then (1, r) else (1, s));
          (radix, s2) =
            (if take 2 s1 = ''0x'' \<or> take 2 s1 = ''0X'' then (16, drop 2 s1) else (10, s1));
          z = takeWhile (is_digit radix) s2
      in if z = [] then None else Some (sign * int (digits_value radix z)))"

text \<open>\<^verbatim>\<open>parseInt\<close> of an optional string: \<^verbatim>\<open>undefined\<close> parses to \<^verbatim>\<open>NaN\<close>.\<close>

definition parseInt_opt :: "string option \<Rightarrow> int option" where
  "parseInt_opt v = (case v of None \<Rightarrow> None | Some s \<Rightarrow> parseInt s)"

text \<open>\<^verbatim>\<open>n || d\<close> on a number: the default for \<^verbatim>\<open>NaN\<close> and for 0.\<close>

definition num_or :: "int option \<Rightarrow> int \<Rightarrow> int" where
  "num_or v d = (case v of None \<Rightarrow> d | Some n \<Rightarrow> if n = 0 then d else n)"

text \<open>A truthy string: present and not empty.\<close>

definition truthy_str :: "string option \<Rightarrow> string option" where
  "truthy_str v = (case v of None \<Rightarrow> None | Some s \<Rightarrow> if s = [] then None else Some s)"

subsection \<open>Listing trips (\<^verbatim>\<open>GET /trips\<close>)\<close>

definition TRIPS_LIMIT :: int where
  "TRIPS_LIMIT = 10"

text \<open>The query string of the request.\<close>

record trip_query =
  q_page :: "string option"
  q_limit :: "string option"
  q_origin :: "string option"
  q_destination :: "string option"
  q_min_price :: "string option"
  q_max_price :: "string option"

record pagination =
  page :: int
  limit :: int
  offset :: int

definition parsePaginationParams :: "trip_query \<Rightarrow> pagination" where
  "parsePaginationParams q =
     (let pg = max 1 (num_or (parseInt_opt (q_page q)) 1);
          per_page = min 50 (max 1 (num_or (parseInt_opt (q_limit q)) TRIPS_LIMIT))
      in \<lparr> page = pg, limit = per_page, offset = (pg - 1) * per_page \<rparr>)"

text \<open>
  The filter object. \<open>price_gte\<close> and \<open>price_lte\<close> are \<open>None\<close> when the parameter is absent
  or parses to \<^verbatim>\<open>NaN\<close>; both cases are falsy where \<^verbatim>\<open>fetchTrips\<close> tests them.
  \<^verbatim>\<open>parseFloat\<close> is a parameter (\<open>None\<close>: \<^verbatim>\<open>NaN\<close>).
\<close>

record trip_filters =
  departure_gte :: int
  origin_ilike :: "string option"
  destination_ilike :: "string option"
  price_gte :: "rat option"
  price_lte :: "rat option"

definition buildTripFilters :: "(string \<Rightarrow> rat option) \<Rightarrow> int \<Rightarrow> trip_query \<Rightarrow> trip_filters" where
  "buildTripFilters parseFloat now_ms q =
     \<lparr> departure_gte = now_ms,
       origin_ilike = map_option (\<lambda>x. ''%'' @ x @ ''%'') (truthy_str (q_origin q)),
       destination_ilike = map_option (\<lambda>x. ''%'' @ x @ ''%'') (truthy_str (q_destination q)),
       price_gte = Option.bind (truthy_str (q_min_price q)) parseFloat,
       price_lte = Option.bind (truthy_str (q_max_price q)) parseFloat \<rparr>"

text \<open>
  The rows the data query selects: the filters that \<^verbatim>\<open>fetchTrips\<close> applies, as the
  store evaluates them. \<open>ilike text pattern\<close> is the store's case-insensitive pattern match
  (a parameter). A price bound of 0 is falsy and not applied; a row without a price
  fails every price comparison.
\<close>

definition trip_matches :: "(string \<Rightarrow> string \<Rightarrow> bool) \<Rightarrow> trip_filters \<Rightarrow> trip \<Rightarrow> bool" where
  "trip_matches ilike f t \<longleftrightarrow>
     departure_gte f \<le> departure_timestamp t \<and>
     (case origin_ilike f of None \<Rightarrow> True | Some pat \<Rightarrow> ilike (origin_text t) pat) \<and>
     (case destination_ilike f of None \<Rightarrow> True | Some pat \<Rightarrow> ilike (destination_text t) pat) \<and>
     (case price_gte f of
        None \<Rightarrow> True
      | Some p \<Rightarrow> if p = 0 then True else (case price t of None \<Rightarrow> False | Some x \<Rightarrow> p \<le> x)) \<and>
     (case price_lte f of
        None \<Rightarrow> True
      | Some p \<Rightarrow> if p = 0 then True else (case price t of None \<Rightarrow> False | Some x \<Rightarrow> x \<le> p))"

text \<open>The outcome of the two queries of \<^verbatim>\<open>fetchTrips\<close> beyond what the store holds.\<close>

record list_env =
  count_query_error :: "string option"
  data_query_error :: "string option"

text \<open>A listed trip with the embedded profile of its driver.\<close>

record trip_row =
  row_trip :: trip
  row_profiles :: "profile option"

record fetch_result =
  fetch_data :: "trip_row list"
  fetch_count :: "nat option"
  fetch_error :: "string option"

text \<open>
  \<^verbatim>\<open>fetchTrips\<close>. The count query is \<^verbatim>\<open>from('trips').select('*', {count: 'exact'})\<close>,
  with no filter; its error is not looked at, and the count is \<^verbatim>\<open>null\<close> then. The data
  query applies the filters, orders by departure (rows of equal departure stay in the
  order of the store, which the store itself leaves open) and takes the rows
  \<open>offset .. offset + limit - 1\<close>.
\<close>

definition fetchTrips :: "(string \<Rightarrow> string \<Rightarrow> bool) \<Rightarrow> list_env \<Rightarrow> pagination \<Rightarrow> trip_filters \<Rightarrow> store \<Rightarrow>
    fetch_result" where
  "fetchTrips ilike env pagination filters s =
     (let counted = (case count_query_error env of None \<Rightarrow> Some (length (trips s)) | Some m \<Rightarrow> None);
          selected = sort_key departure_timestamp (filter (trip_matches ilike filters) (trips s));
          rows = take (nat (limit pagination)) (drop (nat (offset pagination)) selected)
      in case data_query_error env of
           Some m \<Rightarrow> \<lparr> fetch_data = [], fetch_count = Some 0, fetch_error = Some m \<rparr>
         | None \<Rightarrow>
             \<lparr> fetch_data =
                 map (\<lambda>t. \<lparr> row_trip = t,
                            row_profiles = find (\<lambda>p. profile_id p = driver_id t) (profiles s) \<rparr>) rows,
               fetch_count = counted, fetch_error = None \<rparr>)"

text \<open>\<^verbatim>\<open>Math.ceil(count / limit)\<close>; a \<^verbatim>\<open>null\<close> count converts to 0.\<close>

definition total_pages :: "nat option \<Rightarrow> int \<Rightarrow> int" where
  "total_pages counted per_page =
     (case counted of None \<Rightarrow> 0 | Some c \<Rightarrow> \<lceil>real c / real_of_int per_page\<rceil>)"

record trips_page =
  page_trips :: "trip_row list"
  pagination_page :: int
  pagination_limit :: int
  pagination_total :: "nat option"
  pagination_totalPages :: int

datatype list_response = TripsPage trips_page | ListError nat string

definition get_trips :: "(string \<Rightarrow> string \<Rightarrow> bool) \<Rightarrow> (string \<Rightarrow> rat option) \<Rightarrow> list_env \<Rightarrow> int \<Rightarrow>
    trip_query \<Rightarrow> store \<Rightarrow> list_response" where
  "get_trips ilike parseFloat env now_ms q s =
     (let pagination = parsePaginationParams q;
          filters = buildTripFilters parseFloat now_ms q;
          r = fetchTrips ilike env pagination filters s
      in case fetch_error r of
           Some m \<Rightarrow> ListError 500 ''Failed to load trips. Please try again later.''
         | None \<Rightarrow>
             TripsPage
               \<lparr> page_trips = fetch_data r,
                 pagination_page = page pagination,
                 pagination_limit = limit pagination,
                 pagination_total = fetch_count r,
                 pagination_totalPages = total_pages (fetch_count r) (limit pagination) \<rparr>)"

text \<open>
  What the specification asks of the total: the number of trips that match the filters.
\<close>

definition matching_count :: "(string \<Rightarrow> string \<Rightarrow> bool) \<Rightarrow> trip_filters \<Rightarrow> store \<Rightarrow> nat" where
  "matching_count ilike f s = length (filter (trip_matches ilike f) (trips s))"

text \<open>
  Example stores: \<open>n\<close> trips departing after time 1000 and \<open>m\<close> trips that departed before.
\<close>

definition sample_trip :: "string \<Rightarrow> nat \<Rightarrow> int \<Rightarrow> trip" where
  "sample_trip pre i dep =
     \<lparr> trip_id = pre @ replicate i (CHR ''i''), driver_id = ''alice'', origin_text = ''Pune'',
       destination_text = ''Mumbai'', departure_timestamp = dep, available_seats = 3, price = None \<rparr>"

definition listing_store :: "nat \<Rightarrow> nat \<Rightarrow> store" where
  "listing_store n m =
     \<lparr> profiles = [profile_of alice],
       trips = map (\<lambda>i. sample_trip ''future-'' i (2000 + int i)) [0 ..< n] @
               map (\<lambda>i. sample_trip ''past-'' i (500 - int i)) [0 ..< m],
       bookings = [] \<rparr>"

definition first_page_query :: trip_query where
  "first_page_query =
     \<lparr> q_page = Some ''1'', q_limit = Some ''10'', q_origin = None, q_destination = None,
       q_min_price = None, q_max_price = None \<rparr>"

definition list_no_faults :: list_env where
  "list_no_faults = \<lparr> count_query_error = None, data_query_error = None \<rparr>"

text \<open>
  The numbers of a listing response the specification talks about: the number of items,
  the reported total and the reported number of pages (\<open>None\<close> for an error response).
\<close>

definition page_summary :: "list_response \<Rightarrow> (nat \<times> nat option \<times> int) option" where
  "page_summary resp =
     (case resp of
        TripsPage r \<Rightarrow> Some (length (page_trips r), pagination_total r, pagination_totalPages r)
      | ListError code msg \<Rightarrow> None)"

subsection \<open>Trip creation (\<^verbatim>\<open>validateTripData\<close>, \<^verbatim>\<open>POST /trips/create\<close>)\<close>

text \<open>The fields of the submitted form that the validation reads; \<open>None\<close>: not sent.\<close>

record trip_form =
  form_origin_text :: "string option"
  form_destination_text :: "string option"
  form_departure_timestamp :: "string option"
  form_available_seats :: "string option"
  form_price :: "string option"

text \<open>\<^verbatim>\<open>!data.field?.trim()\<close>: the field is missing or blank.\<close>

definition blank :: "string option \<Rightarrow> bool" where
  "blank v \<longleftrightarrow> (case v of None \<Rightarrow> True | Some s \<Rightarrow> js_trim s = [])"

text \<open>
  \<^verbatim>\<open>validateTripData\<close>. \<open>parseDate\<close> is what \<^verbatim>\<open>new Date(string)\<close> yields, in milliseconds,
  \<open>None\<close> for an invalid date; \<open>now_ms\<close> is \<^verbatim>\<open>new Date()\<close>. A comparison with an
  invalid date is false, so \<^verbatim>\<open>new Date(s) <= new Date()\<close> is false for it.
\<close>

definition validateTripData :: "(string \<Rightarrow> int option) \<Rightarrow> (string \<Rightarrow> rat option) \<Rightarrow> int \<Rightarrow> trip_form \<Rightarrow>
    string list" where
  "validateTripData parseDate parseFloat now_ms d =
     (if blank (form_origin_text d) then [''Origin address is required''] else []) @
     (if blank (form_destination_text d) then [''Destination address is required''] else []) @
     (case form_departure_timestamp d of
        None \<Rightarrow> [''Departure time is required'']
      | Some ts \<Rightarrow>
          if ts = [] then [''Departure time is required'']
          else (case parseDate ts of
                  None \<Rightarrow> []
                | Some t \<Rightarrow> if t \<le> now_ms then [''Departure time must be in the future''] else [])) @
     (case form_available_seats d of
        None \<Rightarrow> [''Number of seats is required'']
      | Some ss \<Rightarrow>
          if ss = [] then [''Number of seats is required'']
          else (case parseInt ss of
                  None \<Rightarrow> [''Number of seats must be between 1 and 7'']
                | Some seats \<Rightarrow>
                    if seats < 1 \<or> seats > 7 then [''Number of seats must be between 1 and 7'']
                    else [])) @
     (case form_price d of
        None \<Rightarrow> []
      | Some ps \<Rightarrow>
          if ps = [] then []
          else (case parseFloat ps of
                  None \<Rightarrow> [''Price must be a positive number'']
                | Some p \<Rightarrow> if p < 0 then [''Price must be a positive number''] else []))"

text \<open>
  The row \<^verbatim>\<open>createTripData\<close> builds (without the description and the route geometry).
  \<^verbatim>\<open>new Date(departure_timestamp).toISOString()\<close> throws a \<^verbatim>\<open>RangeError\<close> for an
  invalid date: the result is \<open>None\<close> then. A seat count of \<^verbatim>\<open>NaN\<close> is \<open>None\<close>.
\<close>

record trip_data =
  data_driver_id :: uuid
  data_origin_text :: string
  data_destination_text :: string
  data_departure_timestamp :: int
  data_available_seats :: "int option"
  data_price :: "rat option"

definition createTripData :: "(string \<Rightarrow> int option) \<Rightarrow> (string \<Rightarrow> rat option) \<Rightarrow> auth_user \<Rightarrow> trip_form \<Rightarrow>
    trip_data option" where
  "createTripData parseDate parseFloat u d =
     (case Option.bind (form_departure_timestamp d) parseDate of
        None \<Rightarrow> None
      | Some dep \<Rightarrow>
          Some \<lparr> data_driver_id = user_id u,
                 data_origin_text = js_trim (case form_origin_text d of None \<Rightarrow> [] | Some s \<Rightarrow> s),
                 data_destination_text =
                   js_trim (case form_destination_text d of None \<Rightarrow> [] | Some s \<Rightarrow> s),
                 data_departure_timestamp = dep,
                 data_available_seats = Option.bind (form_available_seats d) parseInt,
                 data_price =
                   (case form_price d of
                      None \<Rightarrow> None
                    | Some ps \<Rightarrow> if ps = [] then None else parseFloat ps) \<rparr>)"

text \<open>
  \<^verbatim>\<open>insertTrip\<close>: the store's error (code and message), or the store with the new row.
  \<^verbatim>\<open>available_seats\<close> is \<^verbatim>\<open>NOT NULL\<close>.
\<close>

record create_env =
  insert_error :: "(string \<times> string) option"
  new_trip_id :: uuid

definition insertTrip :: "create_env \<Rightarrow> trip_data \<Rightarrow> store \<Rightarrow> (string \<times> string) + store" where
  "insertTrip env td s =
     (case insert_error env of
        Some e \<Rightarrow> Inl e
      | None \<Rightarrow>
          (case data_available_seats td of
             None \<Rightarrow> Inl (''23502'', ''null value in column available_seats violates not-null constraint'')
           | Some seats \<Rightarrow>
               Inr (s\<lparr> trips := trips s @
                     [\<lparr> trip_id = new_trip_id env, driver_id = data_driver_id td,
                        origin_text = data_origin_text td,
                        destination_text = data_destination_text td,
                        departure_timestamp = data_departure_timestamp td,
                        available_seats = seats, price = data_price td \<rparr>] \<rparr>)))"

text \<open>
  How the handler answers: \<^verbatim>\<open>handleFormResponse\<close> with \<^verbatim>\<open>success = true\<close> for \<open>Created\<close>
  only. \<open>ValidationFailed\<close> carries the validation messages; \<open>UnexpectedError\<close> is the
  handler's \<^verbatim>\<open>catch\<close> branch.
\<close>

datatype create_response =
    AuthRequired
  | ValidationFailed "string list"
  | UnexpectedError
  | InsertFailed string string
  | Created uuid

definition create_trip :: "(string \<Rightarrow> int option) \<Rightarrow> (string \<Rightarrow> rat option) \<Rightarrow> create_env \<Rightarrow> int \<Rightarrow>
    auth_user option \<Rightarrow> trip_form \<Rightarrow> store \<Rightarrow> create_response \<times> store" where
  "create_trip parseDate parseFloat env now_ms user d s =
     (case user of
        None \<Rightarrow> (AuthRequired, s)
      | Some u \<Rightarrow>
          (let validationErrors = validateTripData parseDate parseFloat now_ms d
           in if length validationErrors > 0 then (ValidationFailed validationErrors, s)
              else
                (case createTripData parseDate parseFloat u d of
                   None \<Rightarrow> (UnexpectedError, s)
                 | Some tripData \<Rightarrow>
                     (case insertTrip env tripData s of
                        Inl (code, msg) \<Rightarrow> (InsertFailed code msg, s)
                      | Inr s' \<Rightarrow> (Created (new_trip_id env), s')))))"

text \<open>
  Examples. A fragment of date parsing: two timestamps as a \<^verbatim>\<open>datetime-local\<close> field
  sends them (read as UTC); \<^verbatim>\<open>new Date('tomorrow')\<close> is an invalid date. A form that
  is complete but for its departure time, which is the word \<^verbatim>\<open>tomorrow\<close>.
\<close>

definition parseDate_sample :: "string \<Rightarrow> int option" where
  "parseDate_sample s =
     map_of [(''2030-01-01T10:00'', 1893492000000), (''2020-01-01T10:00'', 1577872800000)] s"

definition parseFloat_sample :: "string \<Rightarrow> rat option" where
  "parseFloat_sample s = map_of [(''12.50'', 25 / 2), (''0'', 0)] s"

definition form_tomorrow :: trip_form where
  "form_tomorrow =
     \<lparr> form_origin_text = Some ''Pune'', form_destination_text = Some ''Mumbai'',
       form_departure_timestamp = Some ''tomorrow'', form_available_seats = Some ''3'',
       form_price = None \<rparr>"

definition create_no_faults :: create_env where
  "create_no_faults = \<lparr> insert_error = None, new_trip_id = ''t3'' \<rparr>"

section \<open>Properties\<close>

subsection \<open>Health check\<close>

text \<open>
  C6. The specification says that \<^verbatim>\<open>GET /api/health\<close> reports \<open>healthy\<close> with code 200
  exactly when every checked service is healthy or not configured. The handler tests
  every value of the health object, and the timestamp string is one of them: it has no
  \<open>status\<close>, so the test fails for every outcome of the probes and the endpoint answers
  503 \<open>degraded\<close> always, also when the store is reachable and the provider is not configured.
\<close>

theorem api_health_always_degraded:
  "http_code (get_api_health env) = 503 \<and> overall (get_api_health env) = ''degraded''"
  by (simp add: get_api_health_def object_values_def service_ok_def Let_def)

theorem api_health_degraded_when_all_services_ok:
  "services_all_ok (checkApiHealth
      \<lparr> supabase_throws = None, supabase_ms = 12, ors_api_key = None,
        ors_fetch_throws = None, ors_ms = 0, clock_iso = ''2025-01-01T00:00:00.000Z'' \<rparr>) \<and>
   http_code (get_api_health
      \<lparr> supabase_throws = None, supabase_ms = 12, ors_api_key = None,
        ors_fetch_throws = None, ors_ms = 0, clock_iso = ''2025-01-01T00:00:00.000Z'' \<rparr>) = 503"
  using api_health_always_degraded
    [of "\<lparr> supabase_throws = None, supabase_ms = 12, ors_api_key = None,
        ors_fetch_throws = None, ors_ms = 0, clock_iso = ''2025-01-01T00:00:00.000Z'' \<rparr>"]
  by (simp add: services_all_ok_def checkApiHealth_def key_usable_def)

subsection \<open>Fallback routing\<close>

lemma js_sqrt_sin: "0 \<le> sin t \<Longrightarrow> js_sqrt (sin t * sin t) = Some (sin t)"
  by (simp add: js_sqrt_def)

lemma js_sqrt_cos: "0 \<le> cos t \<Longrightarrow> js_sqrt (1 - sin t * sin t) = Some (cos t)"
proof -
  assume c: "0 \<le> cos t"
  have "1 - sin t * sin t = cos t * cos t"
    using sin_cos_squared_add [of t] by (simp add: power2_eq_square algebra_simps)
  then show ?thesis using c by (simp add: js_sqrt_def)
qed

lemma js_atan2_sin_cos: "- (pi / 2) < t \<Longrightarrow> t < pi / 2 \<Longrightarrow> js_atan2 (sin t) (cos t) = t"
  using arctan_tan [of t] cos_gt_zero_pi [of t] by (simp add: js_atan2_def tan_def)

text \<open>The distance and the duration in terms of the intermediate value \<open>a\<close> of the source.\<close>

lemma getSimpleRoute_values:
  assumes "sin (((lat q - lat p) * pi) / 180 / 2) * sin (((lat q - lat p) * pi) / 180 / 2) +
           cos ((lat p * pi) / 180) * sin (((lng q - lng p) * pi) / 180 / 2) *
             sin (((lng q - lng p) * pi) / 180 / 2) = a"
    and "js_sqrt a = Some y" and "js_sqrt (1 - a) = Some x"
  shows "distance (getSimpleRoute p q) = Some (EARTH_RADIUS * (2 * js_atan2 y x) * 1000)"
    and "duration (getSimpleRoute p q) = Some (EARTH_RADIUS * (2 * js_atan2 y x) / AVG_KMH * 3600)"
  unfolding getSimpleRoute_def Let_def assms by simp_all

lemma getSimpleRoute_geometry:
  "route_geometry (getSimpleRoute p q) =
     \<lparr> gtype = ''LineString'', coordinates = [(lng p, lat p), (lng q, lat q)] \<rparr>"
  by (simp add: getSimpleRoute_def Let_def)

text \<open>Two identical points: distance and duration are 0.\<close>

lemma getSimpleRoute_same_point:
  "distance (getSimpleRoute p p) = Some 0 \<and> duration (getSimpleRoute p p) = Some 0"
  by (simp add: getSimpleRoute_def Let_def js_sqrt_def js_atan2_def)

text \<open>Bounds on \<open>\<pi>\<close> from the sign of the sine, by its Maclaurin polynomial.\<close>

lemma sin_313_pos: "0 < sin (313 / 100 :: real)"
proof -
  have "\<bar>sin (313 / 100 :: real) - (\<Sum>m<15. sin_coeff m * (313 / 100) ^ m)\<bar>
          \<le> inverse (fact 15) * \<bar>313 / 100\<bar> ^ 15"
    by (rule Maclaurin_sin_bound)
  moreover have "0 < (\<Sum>m<15. sin_coeff m * (313 / 100 :: real) ^ m)
                     - inverse (fact 15) * \<bar>313 / 100\<bar> ^ 15"
    by (simp add: sin_coeff_def lessThan_nat_numeral fact_numeral power_divide)
  ultimately show ?thesis by linarith
qed

lemma sin_315_neg: "sin (315 / 100 :: real) < 0"
proof -
  have "\<bar>sin (315 / 100 :: real) - (\<Sum>m<15. sin_coeff m * (315 / 100) ^ m)\<bar>
          \<le> inverse (fact 15) * \<bar>315 / 100\<bar> ^ 15"
    by (rule Maclaurin_sin_bound)
  moreover have "(\<Sum>m<15. sin_coeff m * (315 / 100 :: real) ^ m)
                   + inverse (fact 15) * \<bar>315 / 100\<bar> ^ 15 < 0"
    by (simp add: sin_coeff_def lessThan_nat_numeral fact_numeral power_divide)
  ultimately show ?thesis by linarith
qed

lemma pi_gt_313: "313 / 100 < pi"
proof (rule ccontr)
  assume "\<not> 313 / 100 < pi"
  then have le: "pi \<le> 313 / 100" by simp
  have lt: "(313 / 100 :: real) < 2 * pi" using pi_ge_two by linarith
  have "sin (313 / 100 :: real) \<le> 0"
  proof (cases "pi = 313 / 100")
    case True
    have "sin (313 / 100 :: real) = sin pi" by (rule arg_cong [OF True [symmetric]])
    also have "\<dots> = 0" by simp
    finally show ?thesis by simp
  next
    case False
    with le have "pi < 313 / 100" by simp
    then show ?thesis using sin_lt_zero [OF _ lt] by simp
  qed
  with sin_313_pos show False by simp
qed

lemma pi_lt_315: "pi < 315 / 100"
proof (rule ccontr)
  assume "\<not> pi < 315 / 100"
  then have "315 / 100 \<le> pi" by simp
  then have "0 \<le> sin (315 / 100 :: real)" by (intro sin_ge_zero) simp_all
  with sin_315_neg show False by simp
qed

text \<open>
  One degree of longitude on the equator: the distance is \<open>6371000 \<pi> / 180\<close> metres, within
  0.5 percent of 111.19 km, and the geometry has exactly two coordinate pairs.
\<close>

lemma getSimpleRoute_one_degree:
  "distance (getSimpleRoute \<lparr>lat = 0, lng = 0\<rparr> \<lparr>lat = 0, lng = 1\<rparr>) = Some (6371000 * pi / 180)"
proof -
  let ?t = "pi / 360"
  have s: "0 \<le> sin ?t" by (intro sin_ge_zero) simp_all
  have c: "0 \<le> cos ?t" by (intro cos_ge_zero) simp_all
  have t: "js_atan2 (sin ?t) (cos ?t) = ?t" by (rule js_atan2_sin_cos) simp_all
  show ?thesis
    by (subst getSimpleRoute_values(1) [OF _ js_sqrt_sin [OF s] js_sqrt_cos [OF c]])
       (simp_all add: t EARTH_RADIUS_def)
qed

lemma getSimpleRoute_one_degree_approx:
  "\<bar>6371000 * pi / 180 - 111190\<bar> \<le> 111190 * (5 / 1000) \<and>
   length (coordinates (route_geometry
     (getSimpleRoute \<lparr>lat = 0, lng = 0\<rparr> \<lparr>lat = 0, lng = 1\<rparr>))) = 2"
proof -
  have "\<bar>6371000 * pi / 180 - 111190\<bar> \<le> 111190 * (5 / 1000)"
    using pi_gt_313 pi_lt_315 by linarith
  then show ?thesis by (simp only: getSimpleRoute_geometry geometry.simps list.size) simp
qed

text \<open>The values of both formulas from the equator at longitude 0 to 60 N, 60 E.\<close>

lemma getSimpleRoute_0_0_60_60:
  "distance (getSimpleRoute \<lparr>lat = 0, lng = 0\<rparr> \<lparr>lat = 60, lng = 60\<rparr>) = Some (6371000 * pi / 2)"
  by (subst getSimpleRoute_values(1) [where a = "1 / 2" and y = "sqrt (1 / 2)" and x = "sqrt (1 / 2)"])
     (simp_all add: EARTH_RADIUS_def sin_30 js_sqrt_def js_atan2_def arctan_one)

lemma getSimpleRoute_duration_0_0_60_60:
  "duration (getSimpleRoute \<lparr>lat = 0, lng = 0\<rparr> \<lparr>lat = 60, lng = 60\<rparr>) = Some (229356 * pi)"
  by (subst getSimpleRoute_values(2) [where a = "1 / 2" and y = "sqrt (1 / 2)" and x = "sqrt (1 / 2)"])
     (simp_all add: EARTH_RADIUS_def AVG_KMH_def sin_30 js_sqrt_def js_atan2_def arctan_one)

lemma haversine_reference_0_0_60_60:
  "haversine_reference_m \<lparr>lat = 0, lng = 0\<rparr> \<lparr>lat = 60, lng = 60\<rparr> = 12742000 * arcsin (sqrt (3 / 8))"
  by (simp add: haversine_reference_m_def Let_def sin_30 cos_60 power2_eq_square)

lemma sin_7_10_lower: "644 / 1000 < sin (7 / 10 :: real)"
proof -
  have "\<bar>sin (7 / 10 :: real) - (\<Sum>m<7. sin_coeff m * (7 / 10) ^ m)\<bar>
          \<le> inverse (fact 7) * \<bar>7 / 10\<bar> ^ 7"
    by (rule Maclaurin_sin_bound)
  moreover have "644 / 1000 < (\<Sum>m<7. sin_coeff m * (7 / 10 :: real) ^ m)
                     - inverse (fact 7) * \<bar>7 / 10\<bar> ^ 7"
    by (simp add: sin_coeff_def lessThan_nat_numeral fact_numeral power_divide)
  ultimately show ?thesis by linarith
qed

lemma arcsin_sqrt_3_8_upper: "arcsin (sqrt (3 / 8)) < 7 / 10"
proof -
  have a: "sqrt (3 / 8) < 644 / 1000"
    by (rule real_less_lsqrt) (simp_all add: power2_eq_square)
  have b: "0 \<le> sqrt (3 / 8 :: real)" by simp
  have "sqrt (3 / 8) < sin (7 / 10 :: real)" using a sin_7_10_lower by linarith
  moreover have "\<bar>sqrt (3 / 8 :: real)\<bar> \<le> 1" using a b by linarith
  moreover have "\<bar>sin (7 / 10 :: real)\<bar> \<le> 1" by simp
  ultimately have "arcsin (sqrt (3 / 8)) < arcsin (sin (7 / 10 :: real))"
    by (simp add: arcsin_less_mono)
  moreover have "arcsin (sin (7 / 10 :: real)) = 7 / 10"
    using pi_ge_two by (intro arcsin_sin) linarith+
  ultimately show ?thesis by simp
qed

text \<open>
  C7. The specification says that the fallback route is the haversine great-circle
  distance (radius 6371 km), with the duration at 50 km/h and a two-point LineString.
  \<^verbatim>\<open>getSimpleRoute\<close> leaves the factor \<open>cos lat\<^sub>2\<close> out of the haversine term, so it agrees
  with the reference only where that factor does not matter (identical points, both points
  on the equator). From (0, 0) to (60 N, 60 E) it returns \<open>6371000 \<pi> / 2\<close> metres, more than
  1000 km above the great-circle distance, and a duration more than 20 hours above the
  duration of the great-circle distance.
\<close>

theorem getSimpleRoute_not_haversine:
  "distance (getSimpleRoute \<lparr>lat = 0, lng = 0\<rparr> \<lparr>lat = 60, lng = 60\<rparr>) = Some (6371000 * pi / 2) \<and>
   haversine_reference_m \<lparr>lat = 0, lng = 0\<rparr> \<lparr>lat = 60, lng = 60\<rparr> + 1000000 < 6371000 * pi / 2 \<and>
   duration (getSimpleRoute \<lparr>lat = 0, lng = 0\<rparr> \<lparr>lat = 60, lng = 60\<rparr>) = Some (229356 * pi) \<and>
   reference_duration_s \<lparr>lat = 0, lng = 0\<rparr> \<lparr>lat = 60, lng = 60\<rparr> + 72000 < 229356 * pi"
proof -
  have d: "12742000 * arcsin (sqrt (3 / 8)) + 1000000 < 6371000 * pi / 2"
    using arcsin_sqrt_3_8_upper pi_gt_313 by linarith
  have "reference_duration_s \<lparr>lat = 0, lng = 0\<rparr> \<lparr>lat = 60, lng = 60\<rparr>
          = 12742000 * arcsin (sqrt (3 / 8)) / 1000 / 50 * 3600"
    by (simp only: reference_duration_s_def haversine_reference_0_0_60_60)
  with d have "reference_duration_s \<lparr>lat = 0, lng = 0\<rparr> \<lparr>lat = 60, lng = 60\<rparr> + 72000 < 229356 * pi"
    by simp
  with d show ?thesis
    by (simp only: getSimpleRoute_0_0_60_60 getSimpleRoute_duration_0_0_60_60
        haversine_reference_0_0_60_60 simp_thms)
qed

subsection \<open>Provider routing and the route endpoint\<close>

lemma key_usable_iff: "key_usable (Some k) \<longleftrightarrow> 50 \<le> length k \<and> list_all key_char k"
  by (auto simp: key_usable_def validateApiKey_def key_regex_test_def)

lemma getRoute_no_key: "getRoute ors p q None = Inr (getSimpleRoute p q)"
  by (simp add: getRoute_def)

text \<open>
  C8. With a key of at least 50 characters from \<^verbatim>\<open>[a-zA-Z0-9_-]\<close>, \<^verbatim>\<open>getRoute\<close> asks the
  provider: it returns the provider's route when there is one, and the straight-line
  fallback when the provider fails, whatever the failure. For every key, usable or not,
  and every provider outcome the function returns a route and does not throw.
\<close>

theorem getRoute_provider_then_fallback:
  assumes "50 \<le> length k" and "list_all key_char k"
  shows "(ors p q k = Inr r \<longrightarrow> getRoute ors p q (Some k) = Inr r) \<and>
         (ors p q k = Inl e \<longrightarrow> getRoute ors p q (Some k) = Inr (getSimpleRoute p q)) \<and>
         (\<forall>apiKey. \<exists>r'. getRoute ors p q apiKey = Inr r')"
proof -
  have u: "key_usable (Some k)" using assms by (simp add: key_usable_iff)
  have "\<exists>r'. getRoute ors p q apiKey = Inr r'" for apiKey
    by (simp add: getRoute_def split: option.split sum.split)
  with u show ?thesis by (simp add: getRoute_def)
qed

theorem getRoute_provider_then_fallback_witness:
  "getRoute (\<lambda>p q k. Inl ''HTTP 503: Service Unavailable'')
      \<lparr>lat = 1, lng = 2\<rparr> \<lparr>lat = 3, lng = 4\<rparr>
      (Some ''abcdefghijABCDEFGHIJ0123456789_-abcdefghijABCDEFGHIJ'')
   = Inr (getSimpleRoute \<lparr>lat = 1, lng = 2\<rparr> \<lparr>lat = 3, lng = 4\<rparr>)"
proof -
  have l: "50 \<le> length ''abcdefghijABCDEFGHIJ0123456789_-abcdefghijABCDEFGHIJ''" by simp
  have c: "list_all key_char ''abcdefghijABCDEFGHIJ0123456789_-abcdefghijABCDEFGHIJ''"
    by (simp add: key_char_def)
  show ?thesis
    using getRoute_provider_then_fallback
      [OF l c, of "\<lambda>p q k. Inl ''HTTP 503: Service Unavailable''"
         "\<lparr>lat = 1, lng = 2\<rparr>" "\<lparr>lat = 3, lng = 4\<rparr>"
         "getSimpleRoute \<lparr>lat = 1, lng = 2\<rparr> \<lparr>lat = 3, lng = 4\<rparr>"
         "''HTTP 503: Service Unavailable''"]
    by simp
qed

text \<open>
  C9. \<^verbatim>\<open>POST /api/route\<close> passes \<^verbatim>\<open>null\<close> as the key: for every body that passes the
  handler's check (both points present, all four numbers present and not 0) the answer
  is the straight-line fallback, for every provider, whatever it would have returned.
\<close>

theorem post_route_always_fallback:
  assumes "olat \<noteq> 0" and "olng \<noteq> 0" and "dlat \<noteq> 0" and "dlng \<noteq> 0"
  shows "post_route ors
           \<lparr> body_origin = Some \<lparr>jlat = Some olat, jlng = Some olng\<rparr>,
             body_destination = Some \<lparr>jlat = Some dlat, jlng = Some dlng\<rparr> \<rparr>
         = RouteJson (getSimpleRoute \<lparr>lat = olat, lng = olng\<rparr> \<lparr>lat = dlat, lng = dlng\<rparr>)"
  using assms by (simp add: post_route_def getRoute_def)

text \<open>
  A provider that would answer with a 1234 m route, and a well-formed key, as
  \<^verbatim>\<open>getRoute\<close> would use them; the endpoint still answers with the fallback.
\<close>

theorem post_route_always_fallback_witness:
  "getRoute (\<lambda>p q k. Inr \<lparr> distance = Some 1234, duration = Some 60,
                  route_geometry = \<lparr>gtype = ''LineString'', coordinates = []\<rparr>, bbox = [] \<rparr>)
      \<lparr>lat = 1, lng = 2\<rparr> \<lparr>lat = 3, lng = 4\<rparr>
      (Some ''abcdefghijABCDEFGHIJ0123456789_-abcdefghijABCDEFGHIJ'')
     = Inr \<lparr> distance = Some 1234, duration = Some 60,
             route_geometry = \<lparr>gtype = ''LineString'', coordinates = []\<rparr>, bbox = [] \<rparr> \<and>
   post_route (\<lambda>p q k. Inr \<lparr> distance = Some 1234, duration = Some 60,
                  route_geometry = \<lparr>gtype = ''LineString'', coordinates = []\<rparr>, bbox = [] \<rparr>)
      \<lparr> body_origin = Some \<lparr>jlat = Some 1, jlng = Some 2\<rparr>,
        body_destination = Some \<lparr>jlat = Some 3, jlng = Some 4\<rparr> \<rparr>
     = RouteJson (getSimpleRoute \<lparr>lat = 1, lng = 2\<rparr> \<lparr>lat = 3, lng = 4\<rparr>)"
proof -
  have "key_usable (Some ''abcdefghijABCDEFGHIJ0123456789_-abcdefghijABCDEFGHIJ'')"
    by (simp add: key_usable_iff key_char_def)
  then show ?thesis
    using post_route_always_fallback [of 1 2 3 4]
    by (simp add: getRoute_def)
qed

subsection \<open>Booking a seat\<close>

lemmas example_defs = alice_def bob_def carol_def profile_of_def trip_full_def trip_open_def
  example_store_def no_faults_def seat_update_fails_def or_default_def

lemmas book_defs = book_trip_def ensure_profile_def load_trip_def book_loaded_trip_def
  find_existing_booking_def create_booking_def confirm_booking_def select_single_def
  db_insert_booking_def db_insert_profile_def db_update_seats_def Let_def

text \<open>The profile step writes to \<open>profiles\<close> only.\<close>

lemma ensure_profile_keeps:
  "ensure_profile env u s = (Inr s1, log1) \<Longrightarrow> trips s1 = trips s \<and> bookings s1 = bookings s"
  by (auto simp: ensure_profile_def Let_def db_insert_profile_def
      split: option.splits sum.splits if_splits)

lemma ensure_profile_log:
  "ensure_profile env u s = (r, log1) \<Longrightarrow>
     LogTripFound t \<notin> set log1 \<and> LogBookingCreated b \<notin> set log1 \<and> ErrUpdatingSeats m \<notin> set log1"
  by (auto simp: ensure_profile_def Let_def split: option.splits sum.splits if_splits)

lemma confirm_booking_log:
  "confirm_booking env u tripId t s = (resp, log5, s') \<Longrightarrow>
     LogTripFound t' \<notin> set log5 \<and> LogBookingCreated b \<notin> set log5"
  by (auto simp: confirm_booking_def Let_def split: option.splits prod.splits)

lemma book_loaded_trip_log:
  "book_loaded_trip env u tripId t s = (resp, log3, s') \<Longrightarrow> LogTripFound t' \<notin> set log3"
  by (auto simp: book_loaded_trip_def Let_def dest: confirm_booking_log
      split: option.splits sum.splits if_splits prod.splits)

text \<open>
  The line \<^verbatim>\<open>Trip found\<close> is written exactly when the profile step has passed and the
  trip query has returned the trip; the rest of the request is \<open>book_loaded_trip\<close>.
\<close>

lemma book_trip_found:
  assumes "book_trip env (Some u) tripId s = (resp, logs, s')" and "LogTripFound t \<in> set logs"
  shows "\<exists>s1 log1 log3. ensure_profile env u s = (Inr s1, log1) \<and> load_trip env tripId s1 = Some t \<and>
           book_loaded_trip env u tripId t s1 = (resp, log3, s') \<and>
           logs = LogBookingRequest tripId (user_id u) # log1 @ [LogTripFound t] @ log3"
  using assms
  by (auto simp: book_trip_def dest: ensure_profile_log book_loaded_trip_log
      split: option.splits sum.splits prod.splits)

lemma book_trip_fact: "\<exists>resp logs s'. book_trip env user tripId s = (resp, logs, s')"
  by (cases "book_trip env user tripId s") simp

text \<open>
  On a store with unique profile ids, and when the queries of STEPS 1 and 2 are executed,
  the handler gets as far as the trip.
\<close>

lemma select_single_distinct:
  "distinct (map f xs) \<Longrightarrow> k \<in> set (map f xs) \<Longrightarrow> \<exists>x. select_single (\<lambda>y. f y = k) xs = Some x"
proof (induction xs)
  case Nil
  then show ?case by simp
next
  case (Cons a xs)
  show ?case
  proof (cases "f a = k")
    case True
    from Cons.prems have "f a \<notin> f ` set xs" by simp
    with True have "\<forall>y\<in>set xs. f y \<noteq> k" by (metis imageI)
    then have "filter (\<lambda>y. f y = k) xs = []"
      by (simp add: filter_empty_conv)
    with True show ?thesis by (simp add: select_single_def)
  next
    case False
    with Cons show ?thesis by (auto simp: select_single_def)
  qed
qed

lemma ensure_profile_without_faults:
  assumes "profile_check_error env = None" and "profile_create_error env = None"
    and "distinct (map profile_id (profiles s))"
  shows "\<exists>s1 log1. ensure_profile env u s = (Inr s1, log1)"
proof (cases "user_id u \<in> set (map profile_id (profiles s))")
  case True
  from select_single_distinct [OF assms(3) True] obtain p where
    "select_single (\<lambda>y. profile_id y = user_id u) (profiles s) = Some p" by blast
  with assms(1) show ?thesis by (simp add: ensure_profile_def)
next
  case False
  with assms(1,2) show ?thesis
    by (auto simp: ensure_profile_def db_insert_profile_def Let_def split: option.splits)
qed

lemma trip_found_when_loadable:
  assumes "book_trip env (Some u) tripId s = (resp, logs, s')"
    and "LogTripFound t \<in> set logs \<or> trip_loadable env s tripId t"
  shows "LogTripFound t \<in> set logs"
proof (cases "LogTripFound t \<in> set logs")
  case True
  then show ?thesis .
next
  case False
  with assms(2) have a: "trip_loadable env s tripId t" by simp
  then obtain s1 log1 where p: "ensure_profile env u s = (Inr s1, log1)"
    using ensure_profile_without_faults unfolding trip_loadable_def by blast
  from ensure_profile_keeps [OF p] a have l: "load_trip env tripId s1 = Some t"
    by (simp add: load_trip_def trip_loadable_def)
  from assms(1) p l show ?thesis
    by (auto simp: book_trip_def split: prod.splits)
qed

text \<open>The three ways a request of an authenticated caller can go.\<close>

lemma book_trip_cases:
  assumes "book_trip env (Some u) tripId s = (resp, logs, s')"
  obtains (profile) m log1 where "ensure_profile env u s = (Inl m, log1)"
      and "resp = RedirectError tripId profile_failed (Some m)" and "s' = s"
    | (notfound) s1 log1 where "ensure_profile env u s = (Inr s1, log1)"
      and "load_trip env tripId s1 = None"
      and "resp = RedirectError tripId trip_not_found None" and "s' = s1"
    | (loaded) s1 log1 t log3 where "ensure_profile env u s = (Inr s1, log1)"
      and "load_trip env tripId s1 = Some t"
      and "book_loaded_trip env u tripId t s1 = (resp, log3, s')"
  using assms
  by (auto simp: book_trip_def split: option.splits sum.splits prod.splits)

lemma load_trip_store:
  "load_trip env tripId s1 = Some t' \<Longrightarrow> trips s1 = trips s \<Longrightarrow>
     select_single (\<lambda>x. trip_id x = tripId) (trips s) = Some t \<Longrightarrow> t' = t"
  by (auto simp: load_trip_def split: option.splits)

text \<open>The driver check comes first, the seat check second; neither branch writes.\<close>

lemma book_loaded_trip_driver:
  "user_id u = driver_id t \<Longrightarrow>
     book_loaded_trip env u tripId t s = (RedirectError tripId driver_booking None, [LogUserIsDriver], s)"
  by (simp add: book_loaded_trip_def)

lemma book_loaded_trip_no_seats:
  "user_id u \<noteq> driver_id t \<Longrightarrow> available_seats t \<le> 0 \<Longrightarrow>
     book_loaded_trip env u tripId t s = (RedirectError tripId no_seats None, [LogNoSeats], s)"
  by (simp add: book_loaded_trip_def)

text \<open>
  C4. A booking attempt of the driver of the trip never gets the confirmation and writes
  neither to \<open>bookings\<close> nor to \<open>trips\<close>, whatever the seat count and whatever the queries
  return. When the handler has loaded the trip, the request ends in the redirect
  \<open>driver_booking\<close>; the handler loads the trip (it logs \<^verbatim>\<open>Trip found\<close>) in every run in
  which the profile and trip queries are executed.
\<close>

theorem driver_cannot_book_own_trip:
  assumes "book_trip env (Some u) tripId s = (resp, logs, s')"
    and "select_single (\<lambda>x. trip_id x = tripId) (trips s) = Some t"
    and "user_id u = driver_id t"
  shows "confirmed_id resp = None \<and> bookings s' = bookings s \<and> trips s' = trips s \<and>
         (LogTripFound t \<in> set logs \<or> trip_loadable env s tripId t
            \<longrightarrow> resp = RedirectError tripId driver_booking None)"
proof -
  have a: "confirmed_id resp = None \<and> bookings s' = bookings s \<and> trips s' = trips s"
    using assms(1)
  proof (cases rule: book_trip_cases)
    case (profile m log1)
    then show ?thesis by (simp add: confirmed_id_def)
  next
    case (notfound s1 log1)
    with ensure_profile_keeps [OF notfound(1)] show ?thesis by (simp add: confirmed_id_def)
  next
    case (loaded s1 log1 t' log3)
    note k = ensure_profile_keeps [OF loaded(1)]
    from load_trip_store [OF loaded(2) _ assms(2)] k have "t' = t" by simp
    with loaded(3) assms(3) k show ?thesis
      by (auto simp: book_loaded_trip_driver confirmed_id_def)
  qed
  have b: "resp = RedirectError tripId driver_booking None"
    if "LogTripFound t \<in> set logs \<or> trip_loadable env s tripId t"
  proof -
    note found = trip_found_when_loadable [OF assms(1) that]
    from book_trip_found [OF assms(1) found] obtain s1 log1 log3 where
      "book_loaded_trip env u tripId t s1 = (resp, log3, s')" by blast
    with assms(3) show ?thesis by (simp add: book_loaded_trip_driver)
  qed
  from a b show ?thesis by blast
qed

theorem driver_cannot_book_own_trip_witness:
  "0 < available_seats trip_open \<and>
   fst (book_trip no_faults (Some alice) ''t2'' example_store) = RedirectError ''t2'' driver_booking None"
proof -
  obtain resp logs s' where e: "book_trip no_faults (Some alice) ''t2'' example_store = (resp, logs, s')"
    using book_trip_fact by blast
  have f: "trip_loadable no_faults example_store ''t2'' trip_open"
    by (simp add: trip_loadable_def select_single_def example_defs)
  then have g: "select_single (\<lambda>x. trip_id x = ''t2'') (trips example_store) = Some trip_open"
    by (simp add: trip_loadable_def)
  have d: "user_id alice = driver_id trip_open" by (simp add: example_defs)
  from driver_cannot_book_own_trip [OF e g d] f e show ?thesis
    by (simp add: trip_open_def)
qed

text \<open>
  C1. The specification says that every booking attempt on a trip without seats fails with
  \<open>no_seats\<close>. The driver check comes before the seat check: the driver of a full trip
  gets \<open>driver_booking\<close>.
\<close>

theorem driver_on_full_trip_gets_driver_booking:
  "available_seats trip_full = 0 \<and>
   load_trip no_faults ''t1'' example_store = Some trip_full \<and>
   fst (book_trip no_faults (Some alice) ''t1'' example_store) = RedirectError ''t1'' driver_booking None \<and>
   fst (book_trip no_faults (Some alice) ''t1'' example_store) \<noteq> RedirectError ''t1'' no_seats None"
  by (simp add: book_defs example_defs)

text \<open>
  C1, as the code has it. A booking attempt on a trip without seats never gets the
  confirmation and writes neither to \<open>bookings\<close> nor to \<open>trips\<close>. When the caller is not the
  driver of the trip and the handler has loaded the trip, the request ends in the
  redirect \<open>no_seats\<close>.
\<close>

theorem no_seats_rejected:
  assumes "book_trip env (Some u) tripId s = (resp, logs, s')"
    and "select_single (\<lambda>x. trip_id x = tripId) (trips s) = Some t"
    and "available_seats t \<le> 0"
  shows "confirmed_id resp = None \<and> bookings s' = bookings s \<and> trips s' = trips s \<and>
         (user_id u \<noteq> driver_id t \<and>
          (LogTripFound t \<in> set logs \<or> trip_loadable env s tripId t)
            \<longrightarrow> resp = RedirectError tripId no_seats None)"
proof -
  have a: "confirmed_id resp = None \<and> bookings s' = bookings s \<and> trips s' = trips s"
    using assms(1)
  proof (cases rule: book_trip_cases)
    case (profile m log1)
    then show ?thesis by (simp add: confirmed_id_def)
  next
    case (notfound s1 log1)
    with ensure_profile_keeps [OF notfound(1)] show ?thesis by (simp add: confirmed_id_def)
  next
    case (loaded s1 log1 t' log3)
    note k = ensure_profile_keeps [OF loaded(1)]
    from load_trip_store [OF loaded(2) _ assms(2)] k have "t' = t" by simp
    with loaded(3) assms(3) k show ?thesis
      by (cases "user_id u = driver_id t")
         (auto simp: book_loaded_trip_driver book_loaded_trip_no_seats confirmed_id_def)
  qed
  have b: "resp = RedirectError tripId no_seats None"
    if "user_id u \<noteq> driver_id t"
      and "LogTripFound t \<in> set logs \<or> trip_loadable env s tripId t"
  proof -
    note found = trip_found_when_loadable [OF assms(1) that(2)]
    from book_trip_found [OF assms(1) found] obtain s1 log1 log3 where
      "book_loaded_trip env u tripId t s1 = (resp, log3, s')" by blast
    with assms(3) that(1) show ?thesis by (simp add: book_loaded_trip_no_seats)
  qed
  from a b show ?thesis by blast
qed

theorem no_seats_rejected_witness:
  "fst (book_trip no_faults (Some carol) ''t1'' example_store) = RedirectError ''t1'' no_seats None"
proof -
  obtain resp logs s' where e: "book_trip no_faults (Some carol) ''t1'' example_store = (resp, logs, s')"
    using book_trip_fact by blast
  have f: "trip_loadable no_faults example_store ''t1'' trip_full"
    by (simp add: trip_loadable_def select_single_def example_defs)
  then have g: "select_single (\<lambda>x. trip_id x = ''t1'') (trips example_store) = Some trip_full"
    by (simp add: trip_loadable_def)
  have z: "available_seats trip_full \<le> 0" by (simp add: example_defs)
  have d: "user_id carol \<noteq> driver_id trip_full" by (simp add: example_defs)
  from no_seats_rejected [OF e g z] f d e show ?thesis by simp
qed

text \<open>The store refuses a second row for a pair, whatever the store holds when the insert runs.\<close>

lemma db_insert_booking_unique:
  "db_insert_booking b s = Inr s' \<Longrightarrow>
     \<not> has_booking s (booking_trip_id b) (passenger_id b) \<and>
     (unique_bookings s \<longrightarrow> unique_bookings s') \<and>
     bookings s' = bookings s @ [b] \<and> trips s' = trips s"
  by (auto simp: db_insert_booking_def has_booking_def unique_bookings_def split: if_splits)

lemma create_booking_unique:
  "create_booking env tripId userId s = Inr s' \<Longrightarrow>
     \<not> has_booking s tripId userId \<and> has_booking s' tripId userId \<and>
     (unique_bookings s \<longrightarrow> unique_bookings s') \<and> trips s' = trips s"
  by (auto simp: create_booking_def has_booking_def dest!: db_insert_booking_unique
      split: option.splits)

lemma confirm_booking_result:
  "confirm_booking env u tripId t s = (resp, log5, s') \<Longrightarrow>
     confirmed_id resp = Some (new_booking_id env) \<and> bookings s' = bookings s \<and>
     (seat_update_error env = Some m \<longrightarrow> ErrUpdatingSeats m \<in> set log5 \<and> trips s' = trips s)"
  by (auto simp: confirm_booking_def confirmed_id_def db_update_seats_def Let_def
      split: option.splits prod.splits)

lemma book_loaded_trip_created:
  assumes "book_loaded_trip env u tripId t s = (resp, log3, s')"
    and "LogBookingCreated bid \<in> set log3"
  shows "\<exists>s4 log5. create_booking env tripId (user_id u) s = Inr s4 \<and>
           confirm_booking env u tripId t s4 = (resp, log5, s') \<and> bid = new_booking_id env \<and>
           set log5 \<subseteq> set log3"
  using assms
  by (auto simp: book_loaded_trip_def Let_def dest: confirm_booking_log
      split: option.splits sum.splits if_splits prod.splits)

lemma book_trip_created:
  assumes "book_trip env (Some u) tripId s = (resp, logs, s')"
    and "LogBookingCreated bid \<in> set logs"
  shows "\<exists>s1 log1 t log3. ensure_profile env u s = (Inr s1, log1) \<and>
           book_loaded_trip env u tripId t s1 = (resp, log3, s') \<and>
           LogBookingCreated bid \<in> set log3 \<and> set log3 \<subseteq> set logs"
proof -
  obtain r log1 where p: "ensure_profile env u s = (r, log1)"
    by (cases "ensure_profile env u s") auto
  from ensure_profile_log [OF p] have n: "LogBookingCreated bid \<notin> set log1" by blast
  show ?thesis
  proof (cases r)
    case (Inl m)
    with p n assms show ?thesis by (auto simp: book_trip_def)
  next
    case (Inr s1)
    show ?thesis
    proof (cases "load_trip env tripId s1")
      case None
      with Inr p n assms show ?thesis by (auto simp: book_trip_def)
    next
      case (Some t)
      obtain r3 log3 s3 where b: "book_loaded_trip env u tripId t s1 = (r3, log3, s3)"
        by (cases "book_loaded_trip env u tripId t s1") auto
      with Inr p Some assms(1) have eq: "resp = r3" "s' = s3"
        and lg: "logs = LogBookingRequest tripId (user_id u) # log1 @ [LogTripFound t] @ log3"
        by (simp_all add: book_trip_def)
      from lg n assms(2) have "LogBookingCreated bid \<in> set log3" by auto
      moreover from lg have "set log3 \<subseteq> set logs" by auto
      ultimately show ?thesis using Inr p b eq by blast
    qed
  qed
qed

text \<open>
  C2. When the insert has succeeded (the handler has logged the new booking's id) and the
  seat update fails, the response is the confirmation page with that id; the failure is
  in the console output only; the booking row exists and the seat count is unchanged.
\<close>

theorem seat_update_failure_still_success:
  assumes "book_trip env (Some u) tripId s = (resp, logs, s')"
    and "LogBookingCreated bid \<in> set logs"
    and "seat_update_error env = Some m"
  shows "confirmed_id resp = Some bid \<and> ErrUpdatingSeats m \<in> set logs \<and>
         has_booking s' tripId (user_id u) \<and> trips s' = trips s"
proof -
  from book_trip_created [OF assms(1,2)] obtain s1 log1 t log3 where
    p: "ensure_profile env u s = (Inr s1, log1)" and
    b: "book_loaded_trip env u tripId t s1 = (resp, log3, s')" and
    c: "LogBookingCreated bid \<in> set log3" and sub: "set log3 \<subseteq> set logs" by blast
  from book_loaded_trip_created [OF b c] obtain s4 log5 where
    i: "create_booking env tripId (user_id u) s1 = Inr s4" and
    f: "confirm_booking env u tripId t s4 = (resp, log5, s')" and
    bid: "bid = new_booking_id env" and sub5: "set log5 \<subseteq> set log3" by blast
  from confirm_booking_result [OF f, of m] assms(3) have
    r: "confirmed_id resp = Some (new_booking_id env)" and bk: "bookings s' = bookings s4" and
    l: "ErrUpdatingSeats m \<in> set log5" and tr: "trips s' = trips s4" by simp_all
  from create_booking_unique [OF i] have h: "has_booking s4 tripId (user_id u)"
    and tr4: "trips s4 = trips s1" by simp_all
  from h bk have "has_booking s' tripId (user_id u)" by (simp add: has_booking_def)
  moreover from l sub5 sub have "ErrUpdatingSeats m \<in> set logs" by blast
  moreover from tr tr4 ensure_profile_keeps [OF p] have "trips s' = trips s" by simp
  ultimately show ?thesis using r bid by simp
qed

theorem seat_update_failure_still_success_witness:
  "confirmed_id (fst (book_trip seat_update_fails (Some carol) ''t2'' example_store)) = Some ''b3'' \<and>
   trips (snd (snd (book_trip seat_update_fails (Some carol) ''t2'' example_store))) = trips example_store"
proof -
  obtain resp logs s' where
    e: "book_trip seat_update_fails (Some carol) ''t2'' example_store = (resp, logs, s')"
    using book_trip_fact by blast
  then have f: "LogBookingCreated ''b3'' \<in> set logs"
    by (auto simp: book_defs example_defs)
  have m: "seat_update_error seat_update_fails = Some ''violates check constraint valid_seats''"
    by (simp add: example_defs)
  from seat_update_failure_still_success [OF e f m] e show ?thesis by simp
qed

text \<open>A request that finds a row for the pair already in the store inserts nothing.\<close>

lemma book_loaded_trip_has_booking:
  assumes "book_loaded_trip env u tripId t s = (resp, log3, s')"
    and "has_booking s tripId (user_id u)"
  shows "bookings s' = bookings s \<and> confirmed_id resp = None \<and>
         (user_id u \<noteq> driver_id t \<and> 0 < available_seats t \<and> booking_check_error env = None
            \<longrightarrow> resp = RedirectError tripId already_booked None)"
proof -
  have n: "create_booking env tripId (user_id u) s \<noteq> Inr s4" for s4
    using assms(2) create_booking_unique by blast
  have ex: "filter (\<lambda>b. booking_trip_id b = tripId \<and> passenger_id b = user_id u) (bookings s) \<noteq> []"
    using assms(2) by (auto simp: has_booking_def filter_empty_conv)
  show ?thesis
    using assms(1) n ex
    by (auto simp: book_loaded_trip_def Let_def confirmed_id_def find_existing_booking_def
        split: option.splits sum.splits if_splits)
qed

lemma book_loaded_trip_unique:
  assumes "book_loaded_trip env u tripId t s = (resp, log3, s')" and "unique_bookings s"
  shows "unique_bookings s'"
  using assms
  by (auto simp: book_loaded_trip_def Let_def unique_bookings_def
      dest!: create_booking_unique confirm_booking_result
      split: option.splits sum.splits if_splits prod.splits)

lemma ensure_profile_unique:
  "ensure_profile env u s = (Inr s1, log1) \<Longrightarrow>
     unique_bookings s1 = unique_bookings s \<and> has_booking s1 = has_booking s"
  by (auto dest!: ensure_profile_keeps simp: unique_bookings_def has_booking_def fun_eq_iff)

lemma book_trip_keeps_pairs:
  assumes "book_trip env (Some u) tripId s = (resp, logs, s')"
  shows "(unique_bookings s \<longrightarrow> unique_bookings s') \<and>
         (has_booking s tripId (user_id u) \<longrightarrow>
            bookings s' = bookings s \<and> confirmed_id resp = None \<and>
            (\<forall>t. LogTripFound t \<in> set logs \<and> user_id u \<noteq> driver_id t \<and> 0 < available_seats t \<and>
                 booking_check_error env = None
                 \<longrightarrow> resp = RedirectError tripId already_booked None))"
proof (cases "ensure_profile env u s")
  case (Pair r log1)
  show ?thesis
  proof (cases r)
    case (Inl m)
    with Pair assms show ?thesis
      by (auto simp: book_trip_def confirmed_id_def dest: ensure_profile_log)
  next
    case (Inr s1)
    with Pair have p: "ensure_profile env u s = (Inr s1, log1)" by simp
    note k = ensure_profile_keeps [OF p] and q = ensure_profile_unique [OF p]
    show ?thesis
    proof (cases "load_trip env tripId s1")
      case None
      with p assms k q show ?thesis
        by (auto simp: book_trip_def confirmed_id_def dest: ensure_profile_log)
    next
      case (Some t)
      obtain r3 log3 s3 where b: "book_loaded_trip env u tripId t s1 = (r3, log3, s3)"
        by (cases "book_loaded_trip env u tripId t s1") auto
      with p Some assms have eq: "resp = r3" "s' = s3"
        and lg: "logs = LogBookingRequest tripId (user_id u) # log1 @ [LogTripFound t] @ log3"
        by (simp_all add: book_trip_def)
      have only: "t' = t" if "LogTripFound t' \<in> set logs" for t'
        using that lg ensure_profile_log [OF p] book_loaded_trip_log [OF b] by auto
      have u1: "unique_bookings s \<longrightarrow> unique_bookings s'"
        using book_loaded_trip_unique [OF b] q eq by simp
      have u2: "bookings s' = bookings s \<and> confirmed_id resp = None \<and>
          (\<forall>t'. LogTripFound t' \<in> set logs \<and> user_id u \<noteq> driver_id t' \<and> 0 < available_seats t' \<and>
                 booking_check_error env = None
                 \<longrightarrow> resp = RedirectError tripId already_booked None)"
        if h: "has_booking s tripId (user_id u)"
      proof -
        from h q have "has_booking s1 tripId (user_id u)" by simp
        from book_loaded_trip_has_booking [OF b this] k eq only show ?thesis by auto
      qed
      from u1 u2 show ?thesis by blast
    qed
  qed
qed

text \<open>
  C3. The specification says that a second booking attempt for a pair always fails with
  \<open>already_booked\<close>. The seat check comes before the check for an existing booking: on a
  full trip the passenger who holds a booking gets \<open>no_seats\<close>.
\<close>

theorem repeat_booking_on_full_trip_gets_no_seats:
  "has_booking example_store ''t1'' (user_id bob) \<and>
   fst (book_trip no_faults (Some bob) ''t1'' example_store) = RedirectError ''t1'' no_seats None \<and>
   fst (book_trip no_faults (Some bob) ''t1'' example_store) \<noteq> RedirectError ''t1'' already_booked None"
  by (simp add: book_defs example_defs has_booking_def)

text \<open>
  C3, as the code has it. Every request keeps the store at one row per pair at most, and
  a request of a passenger who holds a row for the trip never gets the confirmation and
  adds no row. The answer is \<open>already_booked\<close> when the handler has loaded the trip, the
  caller is not the driver, the trip has seats and the check query is executed. Rows enter
  \<open>bookings\<close> through the store's insert only, which refuses a second row for a pair
  whatever the store holds at that moment.
\<close>

theorem one_booking_per_pair:
  assumes "book_trip env (Some u) tripId s = (resp, logs, s')"
  shows "(unique_bookings s \<longrightarrow> unique_bookings s') \<and>
         (has_booking s tripId (user_id u) \<longrightarrow>
            bookings s' = bookings s \<and> confirmed_id resp = None \<and>
            (\<forall>t. (LogTripFound t \<in> set logs \<or> trip_loadable env s tripId t) \<and>
                 user_id u \<noteq> driver_id t \<and> 0 < available_seats t \<and>
                 booking_check_error env = None
                 \<longrightarrow> resp = RedirectError tripId already_booked None)) \<and>
         (\<forall>b s0 s1. db_insert_booking b s0 = Inr s1 \<longrightarrow>
            \<not> has_booking s0 (booking_trip_id b) (passenger_id b) \<and>
            (unique_bookings s0 \<longrightarrow> unique_bookings s1))"
  using book_trip_keeps_pairs [OF assms] trip_found_when_loadable [OF assms]
    db_insert_booking_unique
  by blast

theorem one_booking_per_pair_witness:
  "unique_bookings example_store \<and> has_booking example_store ''t2'' (user_id bob) \<and>
   fst (book_trip no_faults (Some bob) ''t2'' example_store) = RedirectError ''t2'' already_booked None \<and>
   unique_bookings (snd (snd (book_trip no_faults (Some bob) ''t2'' example_store)))"
proof -
  obtain resp logs s' where e: "book_trip no_faults (Some bob) ''t2'' example_store = (resp, logs, s')"
    using book_trip_fact by blast
  then have f: "LogTripFound trip_open \<in> set logs"
    by (auto simp: book_defs example_defs)
  have u: "unique_bookings example_store" by (simp add: unique_bookings_def example_defs)
  have h: "has_booking example_store ''t2'' (user_id bob)" by (simp add: has_booking_def example_defs)
  have c: "user_id bob \<noteq> driver_id trip_open \<and> 0 < available_seats trip_open \<and>
           booking_check_error no_faults = None" by (simp add: example_defs)
  from one_booking_per_pair [OF e] u h f c e show ?thesis by auto
qed

subsection \<open>Listing trips\<close>

lemmas parseInt_defs = parseInt_def js_whitespace_def is_digit_def digit_val_def digits_value_def Let_def

lemma parsePaginationParams_first_page:
  "parsePaginationParams first_page_query = \<lparr> page = 1, limit = 10, offset = 0 \<rparr>"
  by (simp add: parsePaginationParams_def first_page_query_def parseInt_opt_def num_or_def
      TRIPS_LIMIT_def parseInt_defs)

lemma trip_matches_first_page:
  "trip_matches ilike (buildTripFilters parseFloat now_ms first_page_query) t
     \<longleftrightarrow> now_ms \<le> departure_timestamp t"
  by (simp add: trip_matches_def buildTripFilters_def first_page_query_def truthy_str_def)

text \<open>
  The first page of ten without faults: ten of the matching trips at most, while the total
  and the number of pages come from the number of all trips in the store.
\<close>

lemma get_trips_first_page:
  "page_summary (get_trips ilike parseFloat list_no_faults now_ms first_page_query s) =
     Some (min 10 (matching_count ilike (buildTripFilters parseFloat now_ms first_page_query) s),
           Some (length (trips s)),
           \<lceil>real (length (trips s)) / 10\<rceil>)"
  by (simp add: page_summary_def get_trips_def fetchTrips_def Let_def list_no_faults_def
      parsePaginationParams_first_page total_pages_def matching_count_def min.commute)

lemma listing_store_counts:
  "length (trips (listing_store n m)) = n + m"
  "matching_count ilike (buildTripFilters parseFloat 1000 first_page_query) (listing_store n m) = n"
  by (simp_all add: listing_store_def matching_count_def trip_matches_first_page
      sample_trip_def filter_map comp_def)

text \<open>A store of exactly 25 trips, all in the future: 10 items and 3 pages.\<close>

lemma get_trips_25_of_25:
  "page_summary (get_trips ilike parseFloat list_no_faults 1000 first_page_query (listing_store 25 0))
     = Some (10, Some 25, 3)"
  by (simp add: get_trips_first_page listing_store_counts)

text \<open>
  C5. The specification says that the total behind \<open>totalPages\<close> counts the trips that match
  the filters, so that 25 matching future trips give 10 items and \<open>totalPages = 3\<close>. The
  count query of \<^verbatim>\<open>fetchTrips\<close> has no filter: with 25 future trips and 6 past trips in
  the store, 25 trips match, the page has 10 items, and the response reports a total of 31
  and 4 pages.
\<close>

theorem get_trips_counts_unfiltered:
  "matching_count ilike (buildTripFilters parseFloat 1000 first_page_query) (listing_store 25 6) = 25 \<and>
   page_summary (get_trips ilike parseFloat list_no_faults 1000 first_page_query (listing_store 25 6))
     = Some (10, Some 31, 4)"
  by (simp add: get_trips_first_page listing_store_counts)

subsection \<open>Trip creation\<close>

text \<open>When the validation accepts a form.\<close>

lemma validateTripData_accepts_iff:
  "validateTripData parseDate parseFloat now_ms d = [] \<longleftrightarrow>
     \<not> blank (form_origin_text d) \<and> \<not> blank (form_destination_text d) \<and>
     (\<exists>ts. form_departure_timestamp d = Some ts \<and> ts \<noteq> [] \<and>
           (parseDate ts = None \<or> (\<exists>t. parseDate ts = Some t \<and> now_ms < t))) \<and>
     (\<exists>ss n. form_available_seats d = Some ss \<and> ss \<noteq> [] \<and> parseInt ss = Some n \<and> 1 \<le> n \<and> n \<le> 7) \<and>
     (form_price d = None \<or> form_price d = Some [] \<or>
      (\<exists>ps p. form_price d = Some ps \<and> parseFloat ps = Some p \<and> 0 \<le> p))"
  by (auto simp: validateTripData_def split: option.splits if_splits)

text \<open>A form the validation refuses is answered with the messages and nothing is inserted.\<close>

lemma create_trip_validation_error:
  "validateTripData parseDate parseFloat now_ms d \<noteq> [] \<Longrightarrow>
     create_trip parseDate parseFloat env now_ms (Some u) d s =
       (ValidationFailed (validateTripData parseDate parseFloat now_ms d), s)"
  by (simp add: create_trip_def Let_def)

text \<open>A departure time that parses and is not in the future is refused.\<close>

lemma validateTripData_past_departure:
  "form_departure_timestamp d = Some ts \<Longrightarrow> parseDate ts = Some t \<Longrightarrow> t \<le> now_ms \<Longrightarrow>
     validateTripData parseDate parseFloat now_ms d \<noteq> []"
  by (auto simp: validateTripData_accepts_iff)

text \<open>
  C10. The specification says that a departure time is accepted only if it is present and
  strictly later than the validation time, and that every other input gets a validation
  error. A departure time that does not parse as a date is neither, and the validation
  accepts it: the comparison with the invalid date is false. The handler then fails in
  \<^verbatim>\<open>createTripData\<close> and answers with its generic error; no row is inserted.
\<close>

theorem unparseable_departure_passes_validation:
  assumes "parseDate ''tomorrow'' = None"
  shows "validateTripData parseDate parseFloat now_ms form_tomorrow = [] \<and>
         create_trip parseDate parseFloat env now_ms (Some u) form_tomorrow s = (UnexpectedError, s)"
proof -
  have v: "validateTripData parseDate parseFloat now_ms form_tomorrow = []"
    using assms
    by (simp add: validateTripData_def form_tomorrow_def blank_def js_trim_def parseInt_defs)
  have c: "createTripData parseDate parseFloat u form_tomorrow = None"
    using assms by (simp add: createTripData_def form_tomorrow_def)
  from v c show ?thesis by (simp add: create_trip_def)
qed

theorem unparseable_departure_passes_validation_witness:
  "validateTripData parseDate_sample parseFloat_sample 1700000000000 form_tomorrow = [] \<and>
   create_trip parseDate_sample parseFloat_sample create_no_faults 1700000000000 (Some alice)
       form_tomorrow example_store = (UnexpectedError, example_store)"
proof -
  have n: "parseDate_sample ''tomorrow'' = None" by (simp add: parseDate_sample_def)
  show ?thesis
    by (rule unparseable_departure_passes_validation
          [of parseDate_sample parseFloat_sample 1700000000000 create_no_faults alice example_store,
           OF n])
qed

end
